theory Spec2Isabelle
  imports Complex_Main
begin

section \<open>Python values\<close>

text \<open>
  The three services exchange JSON. A parsed JSON document is a Python value: \<open>None\<close>,
  a \<open>bool\<close>, an \<open>int\<close> (unbounded), a \<open>float\<close>, a \<open>str\<close>, a \<open>list\<close> or a
  \<open>dict\<close> with string keys. A \<open>dict\<close> is an association list in insertion order
  (keys distinct, as the parser leaves them); a \<open>str\<close> is the list of the bytes of its
  UTF-8 encoding, so that the non-ASCII text of the tool handlers can be written down.

  A \<open>float\<close> is the rational it denotes (\<open>Finite 0\<close> is \<open>0.0\<close>), the negative zero
  \<open>-0.0\<close>, or one of the three special values. Only comparisons with zero decide control
  flow in the source; rounding, parsing and printing of floats are left to the \<open>runtime\<close>
  record below.
\<close>

datatype pyfloat = Finite rat | NegZero | PosInf | NegInf | NaN

text \<open>\<open>x == 0\<close> and \<open>x < 0\<close> on a float: \<open>nan\<close> is neither, both zeros are zero.\<close>

fun float_is_zero :: "pyfloat \<Rightarrow> bool" where
  "float_is_zero (Finite r) = (r = 0)"
| "float_is_zero NegZero = True"
| "float_is_zero x = False"

fun float_is_negative :: "pyfloat \<Rightarrow> bool" where
  "float_is_negative (Finite r) = (r < 0)"
| "float_is_negative NegInf = True"
| "float_is_negative x = False"

datatype json =
    JNull
  | JBool bool
  | JInt int
  | JFloat pyfloat
  | JStr string
  | JArr "json list"
  | JObj "(string \<times> json) list"

text \<open>An exception: its class name and the text \<open>str(e)\<close> gives.\<close>

datatype exn = Exn string string

fun str_exn :: "exn \<Rightarrow> string" where
  "str_exn (Exn cls msg) = msg"

text \<open>Sequencing of steps that may raise: the first exception wins.\<close>

fun and_then :: "exn + 'a \<Rightarrow> ('a \<Rightarrow> exn + 'b) \<Rightarrow> exn + 'b" where
  "and_then (Inl e) f = Inl e"
| "and_then (Inr x) f = f x"

definition dq :: string where
  "dq = [CHR 0x22]"

definition sq :: string where
  "sq = [CHR 0x27]"

definition nl :: string where
  "nl = [CHR 0x0A]"

fun type_name :: "json \<Rightarrow> string" where
  "type_name JNull = ''NoneType''"
| "type_name (JBool b) = ''bool''"
| "type_name (JInt n) = ''int''"
| "type_name (JFloat f) = ''float''"
| "type_name (JStr s) = ''str''"
| "type_name (JArr xs) = ''list''"
| "type_name (JObj kvs) = ''dict''"

text \<open>\<open>d.get(key, default)\<close>: only a \<open>dict\<close> has the method.\<close>

fun dict_get :: "json \<Rightarrow> string \<Rightarrow> json \<Rightarrow> exn + json" where
  "dict_get (JObj kvs) k d = Inr (case map_of kvs k of None \<Rightarrow> d | Some v \<Rightarrow> v)"
| "dict_get v k d =
     Inl (Exn ''AttributeError'' (sq @ type_name v @ sq @ '' object has no attribute '' @ sq @ ''get'' @ sq))"

text \<open>Truth value of a Python value, as \<open>if not x\<close> tests it.\<close>

fun truthy :: "json \<Rightarrow> bool" where
  "truthy JNull = False"
| "truthy (JBool b) = b"
| "truthy (JInt n) = (n \<noteq> 0)"
| "truthy (JFloat f) = (\<not> float_is_zero f)"
| "truthy (JStr s) = (s \<noteq> [])"
| "truthy (JArr xs) = (xs \<noteq> [])"
| "truthy (JObj kvs) = (kvs \<noteq> [])"

fun startswith :: "string \<Rightarrow> string \<Rightarrow> bool" where
  "startswith s p = (take (length p) s = p)"

fun digit_char :: "nat \<Rightarrow> char" where
  "digit_char n = char_of (48 + n)"

fun show_nat :: "nat \<Rightarrow> string" where
  "show_nat n = (if n < 10 then [digit_char n] else show_nat (n div 10) @ [digit_char (n mod 10)])"

declare show_nat.simps [simp del]

fun show_int :: "int \<Rightarrow> string" where
  "show_int i = (if i < 0 then ''-'' @ show_nat (nat (- i)) else show_nat (nat i))"

fun join_strs :: "string \<Rightarrow> string list \<Rightarrow> string" where
  "join_strs sep [] = []"
| "join_strs sep [x] = x"
| "join_strs sep (x # y # ys) = x @ sep @ join_strs sep (y # ys)"

text \<open>
  \<open>sep.join(xs)\<close> takes any iterable of \<open>str\<close>. A list is joined item by item and the
  first item that is not a \<open>str\<close> raises; a \<open>str\<close> is iterated character by character
  (a character is a lead byte with its continuation bytes); a \<open>dict\<close> is iterated over
  its keys; nothing else is iterable.
\<close>

fun str_items :: "nat \<Rightarrow> json list \<Rightarrow> exn + string list" where
  "str_items i [] = Inr []"
| "str_items i (JStr s # xs) = and_then (str_items (Suc i) xs) (\<lambda>ss. Inr (s # ss))"
| "str_items i (x # xs) =
     Inl (Exn ''TypeError''
       (''sequence item '' @ show_nat i @ '': expected str instance, '' @ type_name x @ '' found''))"

fun is_cont :: "char \<Rightarrow> bool" where
  "is_cont c = ((128::nat) \<le> of_char c \<and> (of_char c :: nat) < 192)"

function utf8_chars :: "string \<Rightarrow> string list" where
  "utf8_chars [] = []"
| "utf8_chars (c # cs) = (c # takeWhile is_cont cs) # utf8_chars (dropWhile is_cont cs)"
  by pat_completeness auto
termination
  by (relation "measure length") (auto simp: less_Suc_eq_le length_dropWhile_le)

fun py_join :: "string \<Rightarrow> json \<Rightarrow> exn + string" where
  "py_join sep (JArr xs) = and_then (str_items 0 xs) (\<lambda>ss. Inr (join_strs sep ss))"
| "py_join sep (JStr s) = Inr (join_strs sep (utf8_chars s))"
| "py_join sep (JObj kvs) = Inr (join_strs sep (map fst kvs))"
| "py_join sep v = Inl (Exn ''TypeError'' ''can only join an iterable'')"

section \<open>What the Python runtime and the libraries contribute\<close>

text \<open>
  The services read the clock, convert JSON numbers to floats, compute with floats,
  print values, and let the validation library describe a rejected request body. None
  of this is in the source; the model takes it from a \<open>runtime\<close> record:
  \<^item> \<open>strftime_now fmt\<close> is what \<open>datetime.now().strftime(fmt)\<close> returns;
  \<^item> \<open>float_of_large n\<close> is \<open>float(n)\<close> for an \<open>int\<close> beyond \<open>2^53\<close> in magnitude (the
    nearest float, or \<open>OverflowError\<close>), \<open>float_of_str s\<close> is \<open>float(s)\<close> for a \<open>str\<close> (the
    float it spells, or \<open>ValueError\<close>);
  \<^item> \<open>float_add\<close>, \<open>float_sub\<close>, \<open>float_mul\<close>, \<open>float_div\<close> are the float operators (the
    source divides by a non-zero divisor only), \<open>math_pow\<close> and \<open>math_sqrt\<close> the library
    functions (\<open>math.pow\<close> raises on overflow and on a domain error; the source calls
    \<open>math.sqrt\<close> on a number that is not negative only);
  \<^item> \<open>float_str x\<close> is \<open>str(x)\<close> for a float, \<open>container_str v\<close> is \<open>str(v)\<close> for a list or a
    dict;
  \<^item> \<open>describe_invalid b\<close> is the text of the exception \<open>JsonRpcRequest(**b)\<close> raises for
    a body \<open>b\<close> it rejects.
\<close>

record runtime =
  strftime_now :: "string \<Rightarrow> string"
  float_of_large :: "int \<Rightarrow> exn + pyfloat"
  float_of_str :: "string \<Rightarrow> exn + pyfloat"
  float_add :: "pyfloat \<Rightarrow> pyfloat \<Rightarrow> pyfloat"
  float_sub :: "pyfloat \<Rightarrow> pyfloat \<Rightarrow> pyfloat"
  float_mul :: "pyfloat \<Rightarrow> pyfloat \<Rightarrow> pyfloat"
  float_div :: "pyfloat \<Rightarrow> pyfloat \<Rightarrow> pyfloat"
  math_pow :: "pyfloat \<Rightarrow> pyfloat \<Rightarrow> exn + pyfloat"
  math_sqrt :: "pyfloat \<Rightarrow> pyfloat"
  float_str :: "pyfloat \<Rightarrow> string"
  container_str :: "json \<Rightarrow> string"
  describe_invalid :: "json \<Rightarrow> string"

text \<open>
  \<open>float(v)\<close>: a \<open>bool\<close> is an \<open>int\<close>; an \<open>int\<close> up to \<open>2^53\<close> in magnitude is a float
  exactly; \<open>None\<close>, a list and a dict raise \<open>TypeError\<close>.
\<close>

fun py_float :: "runtime \<Rightarrow> json \<Rightarrow> exn + pyfloat" where
  "py_float rt (JBool b) = Inr (Finite (if b then 1 else 0))"
| "py_float rt (JInt n) =
     (if \<bar>n\<bar> \<le> 2 ^ 53 then Inr (Finite (of_int n)) else float_of_large rt n)"
| "py_float rt (JFloat x) = Inr x"
| "py_float rt (JStr s) = float_of_str rt s"
| "py_float rt v =
     Inl (Exn ''TypeError''
       (''float() argument must be a string or a real number, not '' @ sq @ type_name v @ sq))"

text \<open>\<open>str(v)\<close>, as an f-string formats a value.\<close>

fun py_str :: "runtime \<Rightarrow> json \<Rightarrow> string" where
  "py_str rt JNull = ''None''"
| "py_str rt (JBool b) = (if b then ''True'' else ''False'')"
| "py_str rt (JInt n) = show_int n"
| "py_str rt (JFloat x) = float_str rt x"
| "py_str rt (JStr s) = s"
| "py_str rt v = container_str rt v"

text \<open>The UTF-8 bytes of a code point, for the text of the tool handlers.\<close>

fun utf8 :: "nat \<Rightarrow> string" where
  "utf8 n =
     (if n < 0x80 then [char_of n]
      else if n < 0x800 then [char_of (0xC0 + n div 64), char_of (0x80 + n mod 64)]
      else if n < 0x10000 then
        [char_of (0xE0 + n div 4096), char_of (0x80 + n div 64 mod 64), char_of (0x80 + n mod 64)]
      else
        [char_of (0xF0 + n div 262144), char_of (0x80 + n div 4096 mod 64),
         char_of (0x80 + n div 64 mod 64), char_of (0x80 + n mod 64)])"

declare utf8.simps [simp del]

definition rule_line :: string where
  "rule_line = concat (replicate 34 (utf8 0x2501))"

text \<open>\<open>s.split(" ")\<close>: the pieces between single spaces, empty pieces kept.\<close>

fun split_from :: "string \<Rightarrow> string \<Rightarrow> string list" where
  "split_from cur [] = [cur]"
| "split_from cur (c # cs) =
     (if c = CHR '' '' then cur # split_from [] cs else split_from (cur @ [c]) cs)"

definition split_space :: "string \<Rightarrow> string list" where
  "split_space s = split_from [] s"

section \<open>The verification gateway (auth-service)\<close>

text \<open>
  \<open>KEYCLOAK_URL\<close> and \<open>KEYCLOAK_REALM\<close> are read from the environment when the module
  is loaded; \<open>default_config\<close> holds the defaults of the source.
\<close>

record config =
  keycloak_url :: string
  keycloak_realm :: string

definition default_config :: config where
  "default_config = \<lparr>keycloak_url = ''http://keycloak:8080'', keycloak_realm = ''mcp-gateway''\<rparr>"

text \<open>
  A response: the status code, the headers the handler assigns (name and value, in the
  order of the assignments) and the JSON body. The headers a framework adds by itself
  (\<open>Content-Type\<close>, \<open>Content-Length\<close>) are not part of it.
\<close>

record response =
  status_code :: nat
  headers :: "(string \<times> json) list"
  body :: json

definition discovery_url :: "config \<Rightarrow> string" where
  "discovery_url cfg =
     keycloak_url cfg @ ''/realms/'' @ keycloak_realm cfg @ ''/.well-known/openid-configuration''"

definition auth_url :: "config \<Rightarrow> string" where
  "auth_url cfg =
     keycloak_url cfg @ ''/realms/'' @ keycloak_realm cfg @ ''/protocol/openid-connect/auth''"

text \<open>
  The two 401 responses of \<open>verify_token\<close> differ in the description only: the JSON body
  carries \<open>body_description\<close>, the challenge carries \<open>header_description\<close>.
\<close>

definition www_authenticate :: "config \<Rightarrow> string \<Rightarrow> string" where
  "www_authenticate cfg header_description =
     ''Bearer realm='' @ dq @ ''mcp-gateway'' @ dq @ '', '' @
     ''error='' @ dq @ ''invalid_token'' @ dq @ '', '' @
     ''error_description='' @ dq @ header_description @ dq @ '', '' @
     ''authorization_uri='' @ dq @ auth_url cfg @ dq @ '', '' @
     ''discovery_uri='' @ dq @ discovery_url cfg @ dq"

definition unauthorized :: "config \<Rightarrow> string \<Rightarrow> string \<Rightarrow> response" where
  "unauthorized cfg body_description header_description =
     \<lparr>status_code = 401,
      headers = [(''WWW-Authenticate'', JStr (www_authenticate cfg header_description))],
      body = JObj [(''error'', JStr ''unauthorized''),
                   (''error_description'', JStr body_description),
                   (''authorization_uri'', JStr (auth_url cfg)),
                   (''discovery_uri'', JStr (discovery_url cfg))]\<rparr>"

text \<open>
  The introspection authority is outside the program: \<open>introspect_token\<close> posts the token
  to it and returns the parsed JSON answer, or raises (connection error, timeout, a
  status that is not 2xx, a body that is not JSON). It is a parameter of the model.
\<close>

type_synonym authority = "string \<Rightarrow> exn + json"

definition introspect_token :: "authority \<Rightarrow> string \<Rightarrow> exn + json" where
  "introspect_token auth token = auth token"

text \<open>
  \<open>response.headers[name] = value\<close>: the header table of the response turns a value that
  is no \<open>str\<close> into \<open>str(value)\<close> and raises \<open>ValueError\<close> for a value with a line break
  (a carriage return or a line feed).
\<close>

definition has_newline :: "string \<Rightarrow> bool" where
  "has_newline s = (CHR 0x0A \<in> set s \<or> CHR 0x0D \<in> set s)"

definition header_value :: "runtime \<Rightarrow> json \<Rightarrow> exn + string" where
  "header_value rt v =
     (if has_newline (py_str rt v) then
        Inl (Exn ''ValueError'' ''Header values must not contain newline characters.'')
      else Inr (py_str rt v))"

text \<open>
  The \<open>try\<close> block of \<open>verify_token\<close>: the response it returns, or the exception raised in
  it. The claims are read first, then the four headers are assigned in the order of the
  source, the roles being joined when their header is assigned.
\<close>

definition verify_try :: "runtime \<Rightarrow> authority \<Rightarrow> string \<Rightarrow> exn + response" where
  "verify_try rt auth token =
     and_then (introspect_token auth token) (\<lambda>token_info.
     and_then (dict_get token_info ''active'' (JBool False)) (\<lambda>active.
       if \<not> truthy active then Inl (Exn ''ValueError'' ''Token is not active'')
       else
         and_then (dict_get token_info ''sub'' (JStr [])) (\<lambda>sub.
         and_then (dict_get token_info ''email'' (JStr [])) (\<lambda>email.
         and_then (dict_get token_info ''realm_access'' (JObj [])) (\<lambda>realm_access.
         and_then (dict_get realm_access ''roles'' (JArr [])) (\<lambda>roles.
         and_then (dict_get token_info ''scope'' (JStr [])) (\<lambda>scope.
         and_then (header_value rt sub) (\<lambda>x_user_sub.
         and_then (header_value rt email) (\<lambda>x_user_email.
         and_then (py_join '','' roles) (\<lambda>joined.
         and_then (header_value rt (JStr joined)) (\<lambda>x_user_roles.
         and_then (header_value rt scope) (\<lambda>x_user_scopes.
           Inr \<lparr>status_code = 200,
                headers = [(''X-User-Sub'', JStr x_user_sub),
                           (''X-User-Email'', JStr x_user_email),
                           (''X-User-Roles'', JStr x_user_roles),
                           (''X-User-Scopes'', JStr x_user_scopes)],
                body = JObj [(''status'', JStr ''ok'')]\<rparr>))))))))))))"

text \<open>
  \<open>verify_token\<close> takes the \<open>Authorization\<close> header of the request (\<open>None\<close> when the
  request has none) and returns the response together with the tokens it sent to the
  introspection authority, in order.
\<close>

definition verify_token ::
  "runtime \<Rightarrow> config \<Rightarrow> authority \<Rightarrow> string option \<Rightarrow> response \<times> string list" where
  "verify_token rt cfg auth authorization =
     (let auth_header = (case authorization of None \<Rightarrow> [] | Some h \<Rightarrow> h) in
      if \<not> startswith auth_header ''Bearer '' then
        (unauthorized cfg ''Bearer token required'' ''Bearer token required'', [])
      else
        let token = drop 7 auth_header in
        (case verify_try rt auth token of
           Inr resp \<Rightarrow> resp
         | Inl e \<Rightarrow> unauthorized cfg (str_exn e) ''Token validation failed'',
         [token]))"

definition header :: "response \<Rightarrow> string \<Rightarrow> json option" where
  "header resp name = map_of (headers resp) name"

section \<open>The JSON-RPC request and response\<close>

text \<open>
  \<open>JsonRpcRequest\<close> declares \<open>jsonrpc: str = "2.0"\<close>, \<open>id: int | str\<close>, \<open>method: str\<close> and
  \<open>params: dict = {}\<close>. The constructor validates the body against these declarations:
  the body has to be a dict, \<open>id\<close> and \<open>method\<close> have to be there, and other keys are
  ignored. An \<open>id\<close> that is an \<open>int\<close> or a \<open>str\<close> is kept; a \<open>bool\<close> and a float without
  fractional part are accepted as the \<open>int\<close> they convert to; any other \<open>id\<close> is
  rejected. \<open>jsonrpc\<close> and \<open>method\<close> have to be a \<open>str\<close>, \<open>params\<close> a dict. (The fields are
  named \<open>rpc_...\<close> here.)
\<close>

record JsonRpcRequest =
  rpc_jsonrpc :: string
  rpc_id :: json
  rpc_method :: string
  rpc_params :: "(string \<times> json) list"

text \<open>\<open>rpc_request.params.get(key, default)\<close>.\<close>

definition params_get :: "JsonRpcRequest \<Rightarrow> string \<Rightarrow> json \<Rightarrow> json" where
  "params_get r k d = (case map_of (rpc_params r) k of None \<Rightarrow> d | Some v \<Rightarrow> v)"

fun id_field :: "json option \<Rightarrow> json option" where
  "id_field (Some (JInt n)) = Some (JInt n)"
| "id_field (Some (JStr s)) = Some (JStr s)"
| "id_field (Some (JBool b)) = Some (JInt (if b then 1 else 0))"
| "id_field (Some (JFloat (Finite r))) = (if r = of_int \<lfloor>r\<rfloor> then Some (JInt \<lfloor>r\<rfloor>) else None)"
| "id_field (Some (JFloat NegZero)) = Some (JInt 0)"
| "id_field v = None"

fun str_field :: "json option \<Rightarrow> string option \<Rightarrow> string option" where
  "str_field (Some (JStr s)) d = Some s"
| "str_field None d = d"
| "str_field v d = None"

fun dict_field :: "json option \<Rightarrow> (string \<times> json) list option" where
  "dict_field (Some (JObj kvs)) = Some kvs"
| "dict_field None = Some []"
| "dict_field v = None"

definition validate_fields :: "(string \<times> json) list \<Rightarrow> JsonRpcRequest option" where
  "validate_fields kvs =
     (case (str_field (map_of kvs ''jsonrpc'') (Some ''2.0''), id_field (map_of kvs ''id''),
            str_field (map_of kvs ''method'') None, dict_field (map_of kvs ''params'')) of
        (Some j, Some i, Some m, Some p) \<Rightarrow>
          Some \<lparr>rpc_jsonrpc = j, rpc_id = i, rpc_method = m, rpc_params = p\<rparr>
      | _ \<Rightarrow> None)"

fun new_JsonRpcRequest :: "runtime \<Rightarrow> json \<Rightarrow> exn + JsonRpcRequest" where
  "new_JsonRpcRequest rt (JObj kvs) =
     (case validate_fields kvs of
        Some r \<Rightarrow> Inr r
      | None \<Rightarrow> Inl (Exn ''ValidationError'' (describe_invalid rt (JObj kvs))))"
| "new_JsonRpcRequest rt b = Inl (Exn ''TypeError'' (describe_invalid rt b))"

text \<open>
  The \<open>try\<close> block of \<open>mcp_endpoint\<close>: \<open>await request.json()\<close> gives the parsed body or
  raises (the argument \<open>request_json\<close> is its outcome), then the constructor runs.
\<close>

definition parse_request :: "runtime \<Rightarrow> exn + json \<Rightarrow> exn + JsonRpcRequest" where
  "parse_request rt request_json = and_then request_json (new_JsonRpcRequest rt)"

text \<open>A dict the endpoint returns is sent with status 200; \<open>JSONResponse\<close> sets the status itself.\<close>

definition returned :: "json \<Rightarrow> response" where
  "returned content = \<lparr>status_code = 200, headers = [], body = content\<rparr>"

definition JSONResponse :: "nat \<Rightarrow> json \<Rightarrow> response" where
  "JSONResponse code content = \<lparr>status_code = code, headers = [], body = content\<rparr>"

definition parse_error_response :: "exn \<Rightarrow> response" where
  "parse_error_response e =
     JSONResponse 400
       (JObj [(''jsonrpc'', JStr ''2.0''),
              (''id'', JNull),
              (''error'', JObj [(''code'', JInt (- 32700)),
                                (''message'', JStr ''Parse error''),
                                (''data'', JStr (str_exn e))])])"

definition error_envelope :: "json \<Rightarrow> int \<Rightarrow> string \<Rightarrow> string \<Rightarrow> json" where
  "error_envelope i code message data =
     JObj [(''jsonrpc'', JStr ''2.0''),
           (''id'', i),
           (''error'', JObj [(''code'', JInt code),
                             (''message'', JStr message),
                             (''data'', JStr data)])]"

definition result_envelope :: "json \<Rightarrow> json \<Rightarrow> json" where
  "result_envelope i result = JObj [(''jsonrpc'', JStr ''2.0''), (''id'', i), (''result'', result)]"

definition tool_result :: "string \<Rightarrow> string \<Rightarrow> string \<Rightarrow> json" where
  "tool_result result x_user_sub x_user_email =
     JObj [(''content'', JArr [JObj [(''type'', JStr ''text''), (''text'', JStr result)]]),
           (''user'', JObj [(''sub'', JStr x_user_sub), (''email'', JStr x_user_email)])]"

definition initialize_result :: "string \<Rightarrow> json" where
  "initialize_result server_name =
     JObj [(''protocolVersion'', JStr ''2024-11-05''),
           (''capabilities'', JObj [(''tools'', JObj [])]),
           (''serverInfo'', JObj [(''name'', JStr server_name), (''version'', JStr ''1.0.0'')])]"

text \<open>A member of the envelope a response carries.\<close>

fun envelope_member :: "response \<Rightarrow> string \<Rightarrow> json option" where
  "envelope_member resp k = (case body resp of JObj kvs \<Rightarrow> map_of kvs k | _ \<Rightarrow> None)"

text \<open>A header parameter with a default: the header's value, or the default when it is absent.\<close>

fun header_or :: "string \<Rightarrow> string option \<Rightarrow> string" where
  "header_or d None = d"
| "header_or d (Some v) = v"

section \<open>The calculator server\<close>

definition calc_get_user_scopes :: "string \<Rightarrow> string list" where
  "calc_get_user_scopes x_user_scopes =
     (if x_user_scopes \<noteq> [] then split_space x_user_scopes else [''calculator:read''])"

definition calc_check_scope :: "string list \<Rightarrow> string \<Rightarrow> bool" where
  "calc_check_scope scopes required_scope =
     (if required_scope = ''calculator:read'' then
        ''calculator:read'' \<in> set scopes \<or> ''calculator-scope'' \<in> set scopes \<or> ''openid'' \<in> set scopes
      else required_scope \<in> set scopes)"

definition calculate_add :: "runtime \<Rightarrow> pyfloat \<Rightarrow> pyfloat \<Rightarrow> string" where
  "calculate_add rt a b =
     (let result = float_add rt a b in
        nl @ utf8 0x1F9EE @ '' Calcul: Addition'' @ nl @ rule_line @ nl @ utf8 0x1F4CA @
        '' Op'' @ utf8 0xE9 @ ''ration: '' @ float_str rt a @ '' + '' @ float_str rt b @
        nl @ utf8 0x2705 @ '' R'' @ utf8 0xE9 @ ''sultat: '' @ float_str rt result @ nl @
        utf8 0x1F4C5 @ '' Calcul'' @ utf8 0xE9 @ '' le: '' @
        strftime_now rt ''%Y-%m-%d %H:%M:%S'' @ nl)"

definition calculate_subtract :: "runtime \<Rightarrow> pyfloat \<Rightarrow> pyfloat \<Rightarrow> string" where
  "calculate_subtract rt a b =
     (let result = float_sub rt a b in
        nl @ utf8 0x1F9EE @ '' Calcul: Soustraction'' @ nl @ rule_line @ nl @ utf8 0x1F4CA @
        '' Op'' @ utf8 0xE9 @ ''ration: '' @ float_str rt a @ '' - '' @ float_str rt b @
        nl @ utf8 0x2705 @ '' R'' @ utf8 0xE9 @ ''sultat: '' @ float_str rt result @ nl @
        utf8 0x1F4C5 @ '' Calcul'' @ utf8 0xE9 @ '' le: '' @
        strftime_now rt ''%Y-%m-%d %H:%M:%S'' @ nl)"

definition calculate_multiply :: "runtime \<Rightarrow> pyfloat \<Rightarrow> pyfloat \<Rightarrow> string" where
  "calculate_multiply rt a b =
     (let result = float_mul rt a b in
        nl @ utf8 0x1F9EE @ '' Calcul: Multiplication'' @ nl @ rule_line @ nl @
        utf8 0x1F4CA @ '' Op'' @ utf8 0xE9 @ ''ration: '' @ float_str rt a @ '' '' @
        utf8 0xD7 @ '' '' @ float_str rt b @ nl @ utf8 0x2705 @ '' R'' @ utf8 0xE9 @
        ''sultat: '' @ float_str rt result @ nl @ utf8 0x1F4C5 @ '' Calcul'' @ utf8 0xE9 @
        '' le: '' @ strftime_now rt ''%Y-%m-%d %H:%M:%S'' @ nl)"

definition calculate_divide :: "runtime \<Rightarrow> pyfloat \<Rightarrow> pyfloat \<Rightarrow> string" where
  "calculate_divide rt a b =
     (if float_is_zero b then
        nl @ utf8 0x1F9EE @ '' Calcul: Division'' @ nl @ rule_line @ nl @ utf8 0x1F4CA @
        '' Op'' @ utf8 0xE9 @ ''ration: '' @ float_str rt a @ '' '' @ utf8 0xF7 @ '' '' @
        float_str rt b @ nl @ utf8 0x274C @ '' Erreur: Division par z'' @ utf8 0xE9 @
        ''ro impossible!'' @ nl @ utf8 0x1F4C5 @ '' Calcul'' @ utf8 0xE9 @ '' le: '' @
        strftime_now rt ''%Y-%m-%d %H:%M:%S'' @ nl
      else let result = float_div rt a b in
        nl @ utf8 0x1F9EE @ '' Calcul: Division'' @ nl @ rule_line @ nl @ utf8 0x1F4CA @
        '' Op'' @ utf8 0xE9 @ ''ration: '' @ float_str rt a @ '' '' @ utf8 0xF7 @ '' '' @
        float_str rt b @ nl @ utf8 0x2705 @ '' R'' @ utf8 0xE9 @ ''sultat: '' @
        float_str rt result @ nl @ utf8 0x1F4C5 @ '' Calcul'' @ utf8 0xE9 @ '' le: '' @
        strftime_now rt ''%Y-%m-%d %H:%M:%S'' @ nl)"

definition calculate_power :: "runtime \<Rightarrow> pyfloat \<Rightarrow> pyfloat \<Rightarrow> exn + string" where
  "calculate_power rt base exponent =
     and_then (math_pow rt base exponent) (\<lambda>result. Inr (
        nl @ utf8 0x1F9EE @ '' Calcul: Puissance'' @ nl @ rule_line @ nl @ utf8 0x1F4CA @
        '' Op'' @ utf8 0xE9 @ ''ration: '' @ float_str rt base @ ''^'' @
        float_str rt exponent @ nl @ utf8 0x2705 @ '' R'' @ utf8 0xE9 @ ''sultat: '' @
        float_str rt result @ nl @ utf8 0x1F4C5 @ '' Calcul'' @ utf8 0xE9 @ '' le: '' @
        strftime_now rt ''%Y-%m-%d %H:%M:%S'' @ nl))"

definition calculate_sqrt :: "runtime \<Rightarrow> pyfloat \<Rightarrow> string" where
  "calculate_sqrt rt number =
     (if float_is_negative number then
        nl @ utf8 0x1F9EE @ '' Calcul: Racine Carr'' @ utf8 0xE9 @ ''e'' @ nl @ rule_line @
        nl @ utf8 0x1F4CA @ '' Op'' @ utf8 0xE9 @ ''ration: '' @ utf8 0x221A @
        float_str rt number @ nl @ utf8 0x274C @ '' Erreur: Racine carr'' @ utf8 0xE9 @
        ''e d'' @ sq @ ''un nombre n'' @ utf8 0xE9 @ ''gatif impossible!'' @ nl @
        utf8 0x1F4C5 @ '' Calcul'' @ utf8 0xE9 @ '' le: '' @
        strftime_now rt ''%Y-%m-%d %H:%M:%S'' @ nl
      else let result = math_sqrt rt number in
        nl @ utf8 0x1F9EE @ '' Calcul: Racine Carr'' @ utf8 0xE9 @ ''e'' @ nl @ rule_line @
        nl @ utf8 0x1F4CA @ '' Op'' @ utf8 0xE9 @ ''ration: '' @ utf8 0x221A @
        float_str rt number @ nl @ utf8 0x2705 @ '' R'' @ utf8 0xE9 @ ''sultat: '' @
        float_str rt result @ nl @ utf8 0x1F4C5 @ '' Calcul'' @ utf8 0xE9 @ '' le: '' @
        strftime_now rt ''%Y-%m-%d %H:%M:%S'' @ nl)"

definition calc_MCP_TOOLS :: json where
  "calc_MCP_TOOLS =
     JArr
      [JObj
        [(''name'', JStr ''add''),
         (''description'', JStr ''Add two numbers together (a + b)''),
         (''inputSchema'', JObj
          [(''type'', JStr ''object''),
           (''properties'', JObj
            [(''a'', JObj [(''type'', JStr ''number''), (''description'', JStr ''First number'')]),
             (''b'', JObj
              [(''type'', JStr ''number''),
               (''description'', JStr ''Second number'')])]),
           (''required'', JArr [JStr ''a'', JStr ''b''])])],
       JObj
        [(''name'', JStr ''subtract''),
         (''description'', JStr ''Subtract two numbers (a - b)''),
         (''inputSchema'', JObj
          [(''type'', JStr ''object''),
           (''properties'', JObj
            [(''a'', JObj [(''type'', JStr ''number''), (''description'', JStr ''First number'')]),
             (''b'', JObj
              [(''type'', JStr ''number''),
               (''description'', JStr ''Number to subtract'')])]),
           (''required'', JArr [JStr ''a'', JStr ''b''])])],
       JObj
        [(''name'', JStr ''multiply''),
         (''description'', JStr (''Multiply two numbers (a '' @ utf8 0xD7 @ '' b)'')),
         (''inputSchema'', JObj
          [(''type'', JStr ''object''),
           (''properties'', JObj
            [(''a'', JObj [(''type'', JStr ''number''), (''description'', JStr ''First number'')]),
             (''b'', JObj
              [(''type'', JStr ''number''),
               (''description'', JStr ''Second number'')])]),
           (''required'', JArr [JStr ''a'', JStr ''b''])])],
       JObj
        [(''name'', JStr ''divide''),
         (''description'', JStr (''Divide two numbers (a '' @ utf8 0xF7 @ '' b)'')),
         (''inputSchema'', JObj
          [(''type'', JStr ''object''),
           (''properties'', JObj
            [(''a'', JObj
              [(''type'', JStr ''number''),
               (''description'', JStr ''Dividend (number to divide)'')]),
             (''b'', JObj
              [(''type'', JStr ''number''),
               (''description'', JStr ''Divisor (number to divide by)'')])]),
           (''required'', JArr [JStr ''a'', JStr ''b''])])],
       JObj
        [(''name'', JStr ''power''),
         (''description'', JStr ''Calculate power of a number (base^exponent)''),
         (''inputSchema'', JObj
          [(''type'', JStr ''object''),
           (''properties'', JObj
            [(''base'', JObj [(''type'', JStr ''number''), (''description'', JStr ''Base number'')]),
             (''exponent'', JObj [(''type'', JStr ''number''), (''description'', JStr ''Exponent'')])]),
           (''required'', JArr [JStr ''base'', JStr ''exponent''])])],
       JObj
        [(''name'', JStr ''sqrt''),
         (''description'', JStr ''Calculate square root of a number''),
         (''inputSchema'', JObj
          [(''type'', JStr ''object''),
           (''properties'', JObj
            [(''number'', JObj
              [(''type'', JStr ''number''),
               (''description'', JStr ''Number to calculate square root of'')])]),
           (''required'', JArr [JStr ''number''])])]]"

text \<open>\<open>float(arguments.get(key, 0))\<close>.\<close>

definition float_arg :: "runtime \<Rightarrow> json \<Rightarrow> string \<Rightarrow> exn + pyfloat" where
  "float_arg rt arguments k = and_then (dict_get arguments k (JInt 0)) (py_float rt)"

text \<open>
  The chain of \<open>if tool_name == ...\<close> of the calculator: the text of the tool's result,
  \<open>None\<close> for a name that is no tool, or the exception raised while the arguments are
  read, converted or computed with. Nothing in \<open>mcp_endpoint\<close> catches it.
\<close>

definition calc_execute :: "runtime \<Rightarrow> json \<Rightarrow> json \<Rightarrow> exn + string option" where
  "calc_execute rt tool_name arguments =
     (if tool_name = JStr ''add'' then
        and_then (float_arg rt arguments ''a'') (\<lambda>a.
        and_then (float_arg rt arguments ''b'') (\<lambda>b.
          Inr (Some (calculate_add rt a b))))
      else if tool_name = JStr ''subtract'' then
        and_then (float_arg rt arguments ''a'') (\<lambda>a.
        and_then (float_arg rt arguments ''b'') (\<lambda>b.
          Inr (Some (calculate_subtract rt a b))))
      else if tool_name = JStr ''multiply'' then
        and_then (float_arg rt arguments ''a'') (\<lambda>a.
        and_then (float_arg rt arguments ''b'') (\<lambda>b.
          Inr (Some (calculate_multiply rt a b))))
      else if tool_name = JStr ''divide'' then
        and_then (float_arg rt arguments ''a'') (\<lambda>a.
        and_then (float_arg rt arguments ''b'') (\<lambda>b.
          Inr (Some (calculate_divide rt a b))))
      else if tool_name = JStr ''power'' then
        and_then (float_arg rt arguments ''base'') (\<lambda>base.
        and_then (float_arg rt arguments ''exponent'') (\<lambda>exponent.
        and_then (calculate_power rt base exponent) (\<lambda>result.
          Inr (Some result))))
      else if tool_name = JStr ''sqrt'' then
        and_then (float_arg rt arguments ''number'') (\<lambda>number.
          Inr (Some (calculate_sqrt rt number)))
      else Inr None)"

text \<open>
  \<open>mcp_endpoint\<close> of the calculator. Its arguments are the outcome of
  \<open>await request.json()\<close> and the four identity headers of the request (\<open>None\<close> for a
  header the request does not carry). It returns a response, or the exception that
  leaves the function.
\<close>

definition calc_mcp_endpoint ::
  "runtime \<Rightarrow> exn + json \<Rightarrow> string option \<Rightarrow> string option \<Rightarrow> string option \<Rightarrow> string option
     \<Rightarrow> exn + response" where
  "calc_mcp_endpoint rt request_json h_sub h_email h_roles h_scopes =
     (let x_user_sub = header_or ''anonymous'' h_sub;
          x_user_email = header_or [] h_email;
          x_user_roles = header_or [] h_roles;
          x_user_scopes = header_or ''calculator:read'' h_scopes
      in
      case parse_request rt request_json of
        Inl e \<Rightarrow> Inr (parse_error_response e)
      | Inr rpc_request \<Rightarrow>
          let scopes = calc_get_user_scopes x_user_scopes in
          if rpc_method rpc_request = ''tools/list'' then
            Inr (returned (result_envelope (rpc_id rpc_request) (JObj [(''tools'', calc_MCP_TOOLS)])))
          else if rpc_method rpc_request = ''tools/call'' then
            let tool_name = params_get rpc_request ''name'' JNull;
                arguments = params_get rpc_request ''arguments'' (JObj [])
            in
            if \<not> calc_check_scope scopes ''calculator:read'' then
              Inr (returned (error_envelope (rpc_id rpc_request) (- 32600)
                     ''Insufficient permissions'' ''Required scope: calculator:read''))
            else
              (case calc_execute rt tool_name arguments of
                 Inl e \<Rightarrow> Inl e
               | Inr None \<Rightarrow>
                   Inr (returned (error_envelope (rpc_id rpc_request) (- 32601)
                          ''Method not found'' (''Unknown tool: '' @ py_str rt tool_name)))
               | Inr (Some result) \<Rightarrow>
                   Inr (returned (result_envelope (rpc_id rpc_request)
                          (tool_result result x_user_sub x_user_email))))
          else if rpc_method rpc_request = ''initialize'' then
            Inr (returned (result_envelope (rpc_id rpc_request)
                   (initialize_result ''mcp-calculator-server'')))
          else
            Inr (returned (error_envelope (rpc_id rpc_request) (- 32601)
                   ''Method not found'' (''Unknown method: '' @ rpc_method rpc_request))))"

section \<open>The weather server\<close>

definition weather_get_user_scopes :: "string \<Rightarrow> string list" where
  "weather_get_user_scopes x_user_scopes =
     (if x_user_scopes \<noteq> [] then split_space x_user_scopes else [''weather:read''])"

definition weather_check_scope :: "string list \<Rightarrow> string \<Rightarrow> bool" where
  "weather_check_scope scopes required_scope =
     (if required_scope = ''weather:read'' then
        ''weather:read'' \<in> set scopes \<or> ''weather-scope'' \<in> set scopes
      else required_scope \<in> set scopes)"

definition get_mock_forecast :: "runtime \<Rightarrow> json \<Rightarrow> json \<Rightarrow> string" where
  "get_mock_forecast rt city country_code =
        nl @ utf8 0x1F324 @ utf8 0xFE0F @ '' M'' @ utf8 0xE9 @ ''t'' @ utf8 0xE9 @
        ''o pour '' @ py_str rt city @ '', '' @ py_str rt country_code @ nl @ rule_line @
        nl @ utf8 0x1F4CA @ '' Conditions: Partiellement nuageux'' @ nl @ utf8 0x1F321 @
        utf8 0xFE0F @ '' Temp'' @ utf8 0xE9 @ ''rature: 12'' @ utf8 0xB0 @ ''C'' @ nl @
        utf8 0x1F914 @ '' Ressenti: 10'' @ utf8 0xB0 @ ''C'' @ nl @ utf8 0x1F4A7 @
        '' Humidit'' @ utf8 0xE9 @ '': 65%'' @ nl @ utf8 0x1F4A8 @ '' Vent: 15 km/h'' @ nl @
        utf8 0x1F4C5 @ '' Mise '' @ utf8 0xE0 @ '' jour: '' @
        strftime_now rt ''%Y-%m-%d %H:%M:%S'' @ nl"

definition get_weather_alerts :: "runtime \<Rightarrow> json \<Rightarrow> string" where
  "get_weather_alerts rt region =
        nl @ utf8 0x26A0 @ utf8 0xFE0F @ '' Alertes M'' @ utf8 0xE9 @ ''t'' @ utf8 0xE9 @
        ''o pour '' @ py_str rt region @ nl @ rule_line @ nl @ utf8 0x1F7E1 @
        '' Vigilance Jaune - Vent'' @ nl @ ''   R'' @ utf8 0xE9 @
        ''gion: Normandie, Bretagne'' @ nl @ ''   Valide: '' @
        strftime_now rt ''%Y-%m-%d'' @ '' 06:00 - 18:00'' @ nl @ ''   '' @ nl @
        utf8 0x1F7E2 @ '' Aucune alerte majeure'' @ nl @
        ''   Le reste du territoire est en vigilance verte.'' @ nl @ ''   '' @ nl @
        utf8 0x1F4C5 @ '' Derni'' @ utf8 0xE8 @ ''re mise '' @ utf8 0xE0 @ '' jour: '' @
        strftime_now rt ''%Y-%m-%d %H:%M:%S'' @ nl"

definition get_uv_index :: "runtime \<Rightarrow> json \<Rightarrow> json \<Rightarrow> string" where
  "get_uv_index rt city country_code =
        nl @ utf8 0x2600 @ utf8 0xFE0F @ '' Indice UV pour '' @ py_str rt city @ '', '' @
        py_str rt country_code @ nl @ rule_line @ nl @ utf8 0x1F4CA @ '' Indice UV: 5'' @
        nl @ utf8 0x1F4C8 @ '' Niveau: Mod'' @ utf8 0xE9 @ ''r'' @ utf8 0xE9 @ nl @
        utf8 0x1F6E1 @ utf8 0xFE0F @ '' Recommandation: Protection n'' @ utf8 0xE9 @
        ''cessaire: lunettes de soleil, cr'' @ utf8 0xE8 @ ''me solaire SPF 30+'' @ nl @
        utf8 0x1F4C5 @ '' Date: '' @ strftime_now rt ''%Y-%m-%d'' @ nl"

definition weather_MCP_TOOLS :: json where
  "weather_MCP_TOOLS =
     JArr
      [JObj
        [(''name'', JStr ''get_weather_forecast''),
         (''description'', JStr ''Get current weather forecast for a city''),
         (''inputSchema'', JObj
          [(''type'', JStr ''object''),
           (''properties'', JObj
            [(''city'', JObj
              [(''type'', JStr ''string''),
               (''description'', JStr ''Name of the city (e.g., Paris, Lyon, Marseille)'')]),
             (''country_code'', JObj
              [(''type'', JStr ''string''),
               (''description'', JStr ''ISO 3166-1 alpha-2 country code (default: FR)''),
               (''default'', JStr ''FR'')])]),
           (''required'', JArr [JStr ''city''])])],
       JObj
        [(''name'', JStr ''get_weather_alerts''),
         (''description'', JStr ''Get active weather alerts for a region''),
         (''inputSchema'', JObj
          [(''type'', JStr ''object''),
           (''properties'', JObj
            [(''region'', JObj
              [(''type'', JStr ''string''),
               (''description'', JStr ''Region or country name''),
               (''default'', JStr ''France'')])])])],
       JObj
        [(''name'', JStr ''get_uv_index''),
         (''description'', JStr ''Get UV index for a city''),
         (''inputSchema'', JObj
          [(''type'', JStr ''object''),
           (''properties'', JObj
            [(''city'', JObj
              [(''type'', JStr ''string''),
               (''description'', JStr ''Name of the city'')]),
             (''country_code'', JObj
              [(''type'', JStr ''string''),
               (''description'', JStr ''ISO country code''),
               (''default'', JStr ''FR'')])]),
           (''required'', JArr [JStr ''city''])])]]"

text \<open>
  The chain of \<open>if tool_name == ...\<close> of the weather server. Its arguments are passed to
  the handlers as they are; only \<open>arguments.get\<close> can raise, when \<open>arguments\<close> is no dict.
\<close>

definition weather_execute :: "runtime \<Rightarrow> json \<Rightarrow> json \<Rightarrow> exn + string option" where
  "weather_execute rt tool_name arguments =
     (if tool_name = JStr ''get_weather_forecast'' then
        and_then (dict_get arguments ''city'' (JStr ''Paris'')) (\<lambda>city.
        and_then (dict_get arguments ''country_code'' (JStr ''FR'')) (\<lambda>country_code.
          Inr (Some (get_mock_forecast rt city country_code))))
      else if tool_name = JStr ''get_weather_alerts'' then
        and_then (dict_get arguments ''region'' (JStr ''France'')) (\<lambda>region.
          Inr (Some (get_weather_alerts rt region)))
      else if tool_name = JStr ''get_uv_index'' then
        and_then (dict_get arguments ''city'' (JStr ''Paris'')) (\<lambda>city.
        and_then (dict_get arguments ''country_code'' (JStr ''FR'')) (\<lambda>country_code.
          Inr (Some (get_uv_index rt city country_code))))
      else Inr None)"

definition weather_mcp_endpoint ::
  "runtime \<Rightarrow> exn + json \<Rightarrow> string option \<Rightarrow> string option \<Rightarrow> string option \<Rightarrow> string option
     \<Rightarrow> exn + response" where
  "weather_mcp_endpoint rt request_json h_sub h_email h_roles h_scopes =
     (let x_user_sub = header_or ''anonymous'' h_sub;
          x_user_email = header_or [] h_email;
          x_user_roles = header_or [] h_roles;
          x_user_scopes = header_or ''weather:read'' h_scopes
      in
      case parse_request rt request_json of
        Inl e \<Rightarrow> Inr (parse_error_response e)
      | Inr rpc_request \<Rightarrow>
          let scopes = weather_get_user_scopes x_user_scopes in
          if rpc_method rpc_request = ''tools/list'' then
            Inr (returned (result_envelope (rpc_id rpc_request) (JObj [(''tools'', weather_MCP_TOOLS)])))
          else if rpc_method rpc_request = ''tools/call'' then
            let tool_name = params_get rpc_request ''name'' JNull;
                arguments = params_get rpc_request ''arguments'' (JObj [])
            in
            if \<not> weather_check_scope scopes ''weather:read'' then
              Inr (returned (error_envelope (rpc_id rpc_request) (- 32600)
                     ''Insufficient permissions'' ''Required scope: weather:read''))
            else
              (case weather_execute rt tool_name arguments of
                 Inl e \<Rightarrow> Inl e
               | Inr None \<Rightarrow>
                   Inr (returned (error_envelope (rpc_id rpc_request) (- 32601)
                          ''Method not found'' (''Unknown tool: '' @ py_str rt tool_name)))
               | Inr (Some result) \<Rightarrow>
                   Inr (returned (result_envelope (rpc_id rpc_request)
                          (tool_result result x_user_sub x_user_email))))
          else if rpc_method rpc_request = ''initialize'' then
            Inr (returned (result_envelope (rpc_id rpc_request)
                   (initialize_result ''mcp-weather-server'')))
          else
            Inr (returned (error_envelope (rpc_id rpc_request) (- 32601)
                   ''Method not found'' (''Unknown method: '' @ rpc_method rpc_request))))"


section \<open>Sample inputs\<close>

text \<open>
  Concrete authorities for the examples below: one that cannot be reached, and one that
  knows a single active token, \<open>good\<close>, and reports every other token inactive.
\<close>

definition refusing_authority :: authority where
  "refusing_authority token = Inl (Exn ''ConnectionError'' ''connection refused'')"

definition sample_claims :: json where
  "sample_claims =
     JObj [(''active'', JBool True),
           (''sub'', JStr ''u-42''),
           (''email'', JStr ''ada@example.org''),
           (''realm_access'', JObj [(''roles'', JArr [JStr ''user'', JStr ''admin''])]),
           (''scope'', JStr ''openid weather:read'')]"

definition sample_authority :: authority where
  "sample_authority token =
     (if token = ''good'' then Inr sample_claims else Inr (JObj [(''active'', JBool False)]))"

text \<open>
  An authority that reports every token active: the token \<open>null-roles\<close> with a
  \<open>realm_access\<close> claim that is \<open>null\<close>, the token \<open>two-lines\<close> with a \<open>sub\<close> claim of two
  lines, every other token (the empty one too) with the sample claims.
\<close>

definition trusting_authority :: authority where
  "trusting_authority token =
     (if token = ''null-roles'' then
        Inr (JObj [(''active'', JBool True), (''sub'', JStr ''u-42''), (''realm_access'', JNull)])
      else if token = ''two-lines'' then
        Inr (JObj [(''active'', JBool True), (''sub'', JStr (''a'' @ nl @ ''b''))])
      else Inr sample_claims)"

text \<open>
  A runtime for the examples: a fixed clock, exact arithmetic on finite values, floats
  printed by their integer part, no large integers and no numeric strings.
\<close>

definition sample_float_op :: "(rat \<Rightarrow> rat \<Rightarrow> rat) \<Rightarrow> pyfloat \<Rightarrow> pyfloat \<Rightarrow> pyfloat" where
  "sample_float_op f x y = (case (x, y) of (Finite a, Finite b) \<Rightarrow> Finite (f a b) | _ \<Rightarrow> NaN)"

definition sample_float_str :: "pyfloat \<Rightarrow> string" where
  "sample_float_str x =
     (case x of Finite r \<Rightarrow> show_int \<lfloor>r\<rfloor> @ ''.0'' | NegZero \<Rightarrow> ''-0.0'' | PosInf \<Rightarrow> ''inf''
      | NegInf \<Rightarrow> ''-inf'' | NaN \<Rightarrow> ''nan'')"

definition sample_runtime :: runtime where
  "sample_runtime =
     \<lparr>strftime_now = (\<lambda>fmt. if fmt = ''%Y-%m-%d'' then ''2024-05-01'' else ''2024-05-01 12:00:00''),
      float_of_large = (\<lambda>n. Inl (Exn ''OverflowError'' ''int too large to convert to float'')),
      float_of_str = (\<lambda>s. Inl (Exn ''ValueError'' (''could not convert string to float: '' @ sq @ s @ sq))),
      float_add = sample_float_op (\<lambda>a b. a + b),
      float_sub = sample_float_op (\<lambda>a b. a - b),
      float_mul = sample_float_op (\<lambda>a b. a * b),
      float_div = sample_float_op (\<lambda>a b. a / b),
      math_pow = (\<lambda>x y. Inl (Exn ''OverflowError'' ''math range error'')),
      math_sqrt = (\<lambda>x. x),
      float_str = sample_float_str,
      container_str = (\<lambda>v. ''[...]''),
      describe_invalid = (\<lambda>b. ''invalid request'')\<rparr>"

text \<open>Request bodies for the examples.\<close>

definition rpc_body :: "json \<Rightarrow> string \<Rightarrow> (string \<times> json) list \<Rightarrow> json" where
  "rpc_body i m p =
     JObj [(''jsonrpc'', JStr ''2.0''), (''id'', i), (''method'', JStr m), (''params'', JObj p)]"


definition sample_divide_request :: json where
  "sample_divide_request =
     rpc_body (JInt 7) ''tools/call''
       [(''name'', JStr ''divide''), (''arguments'', JObj [(''a'', JInt 1), (''b'', JInt 0)])]"

definition sample_null_dividend_request :: json where
  "sample_null_dividend_request =
     rpc_body (JInt 8) ''tools/call''
       [(''name'', JStr ''divide''), (''arguments'', JObj [(''a'', JNull), (''b'', JInt 0)])]"

definition sample_null_arguments_request :: json where
  "sample_null_arguments_request =
     rpc_body (JInt 5) ''tools/call'' [(''name'', JStr ''get_weather_alerts''), (''arguments'', JNull)]"

definition sample_bool_id_request :: json where
  "sample_bool_id_request = rpc_body (JBool True) ''initialize'' []"

definition sample_bad_arguments_request :: json where
  "sample_bad_arguments_request =
     rpc_body (JInt 3) ''tools/call'' [(''name'', JStr ''add''), (''arguments'', JStr ''1 2'')]"

definition sample_unknown_tool_request :: json where
  "sample_unknown_tool_request =
     rpc_body (JInt 4) ''tools/call'' [(''name'', JStr ''launch''), (''arguments'', JObj [])]"

definition sample_decode_error :: exn where
  "sample_decode_error = Exn ''JSONDecodeError'' ''Expecting value: line 1 column 1 (char 0)''"

section \<open>Properties of the verification gateway\<close>

lemma and_then_Inr_iff: "and_then m f = Inr y \<longleftrightarrow> (\<exists>x. m = Inr x \<and> f x = Inr y)"
  by (cases m) auto

lemma str_items_strs: "str_items i (map JStr ss) = Inr ss"
  by (induction ss arbitrary: i) auto

lemma header_value_Inr_iff:
  "header_value rt v = Inr s \<longleftrightarrow> \<not> has_newline (py_str rt v) \<and> s = py_str rt v"
  by (auto simp: header_value_def)

lemma verify_try_status: "verify_try rt auth token = Inr resp \<Longrightarrow> status_code resp = 200"
  by (auto simp: verify_try_def and_then_Inr_iff split: if_splits)

text \<open>What the \<open>try\<close> block returns for a result that is a dict with a true \<open>active\<close> flag.\<close>

lemma verify_try_active:
  assumes "auth token = Inr (JObj info)"
    and "map_of info ''active'' = Some (JBool True)"
    and "dict_get (JObj info) ''sub'' (JStr []) = Inr sub"
    and "dict_get (JObj info) ''email'' (JStr []) = Inr email"
    and "dict_get (JObj info) ''realm_access'' (JObj []) = Inr realm_access"
    and "dict_get (JObj info) ''scope'' (JStr []) = Inr scope"
  shows "verify_try rt auth token = Inr resp \<longleftrightarrow>
           (\<exists>roles joined.
              dict_get realm_access ''roles'' (JArr []) = Inr roles
              \<and> py_join '','' roles = Inr joined
              \<and> \<not> has_newline (py_str rt sub) \<and> \<not> has_newline (py_str rt email)
              \<and> \<not> has_newline joined \<and> \<not> has_newline (py_str rt scope)
              \<and> resp = \<lparr>status_code = 200,
                         headers = [(''X-User-Sub'', JStr (py_str rt sub)),
                                    (''X-User-Email'', JStr (py_str rt email)),
                                    (''X-User-Roles'', JStr joined),
                                    (''X-User-Scopes'', JStr (py_str rt scope))],
                         body = JObj [(''status'', JStr ''ok'')]\<rparr>)"
  using assms
  by (auto simp: verify_try_def introspect_token_def and_then_Inr_iff header_value_Inr_iff)

lemma verify_token_bearer:
  "startswith h ''Bearer '' \<Longrightarrow>
   verify_token rt cfg auth (Some h) =
     (case verify_try rt auth (drop 7 h) of
        Inr resp \<Rightarrow> resp
      | Inl e \<Rightarrow> unauthorized cfg (str_exn e) ''Token validation failed'',
      [drop 7 h])"
  by (simp add: verify_token_def Let_def)

text \<open>
  C1 says that every token reported active is answered with status 200. The \<open>try\<close> block
  rejects an active result whose claims it cannot set as headers: a \<open>realm_access\<close> claim
  that is \<open>null\<close> has no \<open>get\<close>, and a \<open>sub\<close> claim of two lines is refused as a header
  value; both requests are answered with status 401.
\<close>

theorem active_claims_counterexample:
  "introspect_token trusting_authority ''null-roles'' =
     Inr (JObj [(''active'', JBool True), (''sub'', JStr ''u-42''), (''realm_access'', JNull)])
   \<and> status_code (fst (verify_token sample_runtime default_config trusting_authority
                         (Some ''Bearer null-roles''))) = 401
   \<and> introspect_token trusting_authority ''two-lines'' =
     Inr (JObj [(''active'', JBool True), (''sub'', JStr (''a'' @ nl @ ''b''))])
   \<and> status_code (fst (verify_token sample_runtime default_config trusting_authority
                         (Some ''Bearer two-lines''))) = 401"
  by (simp add: verify_token_def verify_try_def introspect_token_def trusting_authority_def
      unauthorized_def header_value_def has_newline_def nl_def)

text \<open>
  C1, as the source has it. A request whose \<open>Authorization\<close> header starts with \<open>Bearer \<close>
  and whose token the introspection authority reports active is answered with status 200
  exactly when the claims can be set as headers: \<open>realm_access\<close> is absent or a dict, the
  roles under it are absent or can be joined with commas (an iterable of strings), and
  none of the four header values has a line break; it is answered with status 401
  otherwise. With status 200, \<open>X-User-Sub\<close> is the \<open>sub\<close> claim, \<open>X-User-Email\<close> the \<open>email\<close>
  claim and \<open>X-User-Scopes\<close> the \<open>scope\<close> claim (the empty string for an absent claim, a
  string unchanged, \<open>str(value)\<close> for any other value), and \<open>X-User-Roles\<close> the roles joined
  with commas.
\<close>

theorem verify_active_token:
  assumes "startswith h ''Bearer ''"
    and "auth (drop 7 h) = Inr (JObj info)"
    and "map_of info ''active'' = Some (JBool True)"
    and "dict_get (JObj info) ''sub'' (JStr []) = Inr sub"
    and "dict_get (JObj info) ''email'' (JStr []) = Inr email"
    and "dict_get (JObj info) ''realm_access'' (JObj []) = Inr realm_access"
    and "dict_get (JObj info) ''scope'' (JStr []) = Inr scope"
  shows
    "(status_code (fst (verify_token rt cfg auth (Some h))) = 200 \<longleftrightarrow>
        (\<exists>roles joined.
           dict_get realm_access ''roles'' (JArr []) = Inr roles
           \<and> py_join '','' roles = Inr joined
           \<and> \<not> has_newline (py_str rt sub) \<and> \<not> has_newline (py_str rt email)
           \<and> \<not> has_newline joined \<and> \<not> has_newline (py_str rt scope)))
     \<and> (status_code (fst (verify_token rt cfg auth (Some h))) = 200
         \<or> status_code (fst (verify_token rt cfg auth (Some h))) = 401)
     \<and> (\<forall>roles joined.
           dict_get realm_access ''roles'' (JArr []) = Inr roles
           \<and> py_join '','' roles = Inr joined
           \<and> \<not> has_newline (py_str rt sub) \<and> \<not> has_newline (py_str rt email)
           \<and> \<not> has_newline joined \<and> \<not> has_newline (py_str rt scope)
         \<longrightarrow> header (fst (verify_token rt cfg auth (Some h))) ''X-User-Sub'' =
               Some (JStr (py_str rt sub))
           \<and> header (fst (verify_token rt cfg auth (Some h))) ''X-User-Email'' =
               Some (JStr (py_str rt email))
           \<and> header (fst (verify_token rt cfg auth (Some h))) ''X-User-Roles'' =
               Some (JStr joined)
           \<and> header (fst (verify_token rt cfg auth (Some h))) ''X-User-Scopes'' =
               Some (JStr (py_str rt scope)))
     \<and> py_str rt (JStr s) = s
     \<and> py_join '','' (JArr (map JStr rs)) = Inr (join_strs '','' rs)"
proof -
  note act = verify_try_active[where auth = auth and token = "drop 7 h" and rt = rt, OF assms(2-7)]
  note tok = verify_token_bearer[OF assms(1), of rt cfg auth]
  have 1: "status_code (fst (verify_token rt cfg auth (Some h))) = 200 \<longleftrightarrow>
        (\<exists>roles joined.
           dict_get realm_access ''roles'' (JArr []) = Inr roles
           \<and> py_join '','' roles = Inr joined
           \<and> \<not> has_newline (py_str rt sub) \<and> \<not> has_newline (py_str rt email)
           \<and> \<not> has_newline joined \<and> \<not> has_newline (py_str rt scope))"
  proof (cases "verify_try rt auth (drop 7 h)")
    case (Inl e)
    with act have "\<not> (\<exists>roles joined.
           dict_get realm_access ''roles'' (JArr []) = Inr roles
           \<and> py_join '','' roles = Inr joined
           \<and> \<not> has_newline (py_str rt sub) \<and> \<not> has_newline (py_str rt email)
           \<and> \<not> has_newline joined \<and> \<not> has_newline (py_str rt scope))"
      by auto
    moreover from Inl tok have "status_code (fst (verify_token rt cfg auth (Some h))) = 401"
      by (simp add: unauthorized_def)
    ultimately show ?thesis by simp
  next
    case (Inr resp)
    with act have "\<exists>roles joined.
           dict_get realm_access ''roles'' (JArr []) = Inr roles
           \<and> py_join '','' roles = Inr joined
           \<and> \<not> has_newline (py_str rt sub) \<and> \<not> has_newline (py_str rt email)
           \<and> \<not> has_newline joined \<and> \<not> has_newline (py_str rt scope)"
      by blast
    moreover from Inr tok verify_try_status[OF Inr]
    have "status_code (fst (verify_token rt cfg auth (Some h))) = 200"
      by simp
    ultimately show ?thesis by simp
  qed
  have 2: "status_code (fst (verify_token rt cfg auth (Some h))) = 200
         \<or> status_code (fst (verify_token rt cfg auth (Some h))) = 401"
  proof (cases "verify_try rt auth (drop 7 h)")
    case (Inl e)
    with tok show ?thesis by (simp add: unauthorized_def)
  next
    case (Inr resp)
    with tok verify_try_status[OF Inr] show ?thesis by simp
  qed
  have 3: "header (fst (verify_token rt cfg auth (Some h))) ''X-User-Sub'' =
               Some (JStr (py_str rt sub))
           \<and> header (fst (verify_token rt cfg auth (Some h))) ''X-User-Email'' =
               Some (JStr (py_str rt email))
           \<and> header (fst (verify_token rt cfg auth (Some h))) ''X-User-Roles'' =
               Some (JStr joined)
           \<and> header (fst (verify_token rt cfg auth (Some h))) ''X-User-Scopes'' =
               Some (JStr (py_str rt scope))"
    if c: "dict_get realm_access ''roles'' (JArr []) = Inr roles
           \<and> py_join '','' roles = Inr joined
           \<and> \<not> has_newline (py_str rt sub) \<and> \<not> has_newline (py_str rt email)
           \<and> \<not> has_newline joined \<and> \<not> has_newline (py_str rt scope)"
    for roles joined
  proof -
    have "verify_try rt auth (drop 7 h) =
            Inr \<lparr>status_code = 200,
                 headers = [(''X-User-Sub'', JStr (py_str rt sub)),
                            (''X-User-Email'', JStr (py_str rt email)),
                            (''X-User-Roles'', JStr joined),
                            (''X-User-Scopes'', JStr (py_str rt scope))],
                 body = JObj [(''status'', JStr ''ok'')]\<rparr>"
      using c act by blast
    with tok show ?thesis by (simp add: header_def)
  qed
  have 4: "py_str rt (JStr s) = s" by simp
  have 5: "py_join '','' (JArr (map JStr rs)) = Inr (join_strs '','' rs)"
    by (simp add: str_items_strs)
  from 1 2 3 4 5 show ?thesis by blast
qed

theorem verify_active_token_witness:
  "status_code (fst (verify_token sample_runtime default_config sample_authority (Some ''Bearer good''))) = 200
   \<and> header (fst (verify_token sample_runtime default_config sample_authority (Some ''Bearer good'')))
         ''X-User-Sub'' = Some (JStr ''u-42'')
   \<and> header (fst (verify_token sample_runtime default_config sample_authority (Some ''Bearer good'')))
         ''X-User-Email'' = Some (JStr ''ada@example.org'')
   \<and> header (fst (verify_token sample_runtime default_config sample_authority (Some ''Bearer good'')))
         ''X-User-Roles'' = Some (JStr ''user,admin'')
   \<and> header (fst (verify_token sample_runtime default_config sample_authority (Some ''Bearer good'')))
         ''X-User-Scopes'' = Some (JStr ''openid weather:read'')"
proof -
  have a: "startswith ''Bearer good'' ''Bearer ''" by simp
  have b: "sample_authority (drop 7 ''Bearer good'') =
      Inr (JObj [(''active'', JBool True),
                 (''sub'', JStr ''u-42''),
                 (''email'', JStr ''ada@example.org''),
                 (''realm_access'', JObj [(''roles'', JArr [JStr ''user'', JStr ''admin''])]),
                 (''scope'', JStr ''openid weather:read'')])"
    by (simp add: sample_authority_def sample_claims_def)
  note t = verify_active_token [where h = "''Bearer good''" and auth = sample_authority
      and info = "[(''active'', JBool True),
                 (''sub'', JStr ''u-42''),
                 (''email'', JStr ''ada@example.org''),
                 (''realm_access'', JObj [(''roles'', JArr [JStr ''user'', JStr ''admin''])]),
                 (''scope'', JStr ''openid weather:read'')]"
      and sub = "JStr ''u-42''"
      and email = "JStr ''ada@example.org''"
      and realm_access = "JObj [(''roles'', JArr [JStr ''user'', JStr ''admin''])]"
      and scope = "JStr ''openid weather:read''" and rt = sample_runtime and cfg = default_config
      and s = "[]" and rs = "[]"]
  have c: "dict_get (JObj [(''roles'', JArr [JStr ''user'', JStr ''admin''])]) ''roles'' (JArr []) =
             Inr (JArr [JStr ''user'', JStr ''admin''])
           \<and> py_join '','' (JArr [JStr ''user'', JStr ''admin'']) = Inr ''user,admin''
           \<and> \<not> has_newline (py_str sample_runtime (JStr ''u-42''))
           \<and> \<not> has_newline (py_str sample_runtime (JStr ''ada@example.org''))
           \<and> \<not> has_newline ''user,admin''
           \<and> \<not> has_newline (py_str sample_runtime (JStr ''openid weather:read''))"
    by (simp add: has_newline_def)
  have t': "(status_code (fst (verify_token sample_runtime default_config sample_authority (Some ''Bearer good''))) = 200 \<longleftrightarrow>
        (\<exists>roles joined.
           dict_get (JObj [(''roles'', JArr [JStr ''user'', JStr ''admin''])]) ''roles'' (JArr []) = Inr roles
           \<and> py_join '','' roles = Inr joined
           \<and> \<not> has_newline (py_str sample_runtime (JStr ''u-42''))
           \<and> \<not> has_newline (py_str sample_runtime (JStr ''ada@example.org''))
           \<and> \<not> has_newline joined
           \<and> \<not> has_newline (py_str sample_runtime (JStr ''openid weather:read''))))
     \<and> (\<forall>roles joined.
           dict_get (JObj [(''roles'', JArr [JStr ''user'', JStr ''admin''])]) ''roles'' (JArr []) = Inr roles
           \<and> py_join '','' roles = Inr joined
           \<and> \<not> has_newline (py_str sample_runtime (JStr ''u-42''))
           \<and> \<not> has_newline (py_str sample_runtime (JStr ''ada@example.org''))
           \<and> \<not> has_newline joined
           \<and> \<not> has_newline (py_str sample_runtime (JStr ''openid weather:read''))
         \<longrightarrow> header (fst (verify_token sample_runtime default_config sample_authority (Some ''Bearer good''))) ''X-User-Sub'' =
               Some (JStr (py_str sample_runtime (JStr ''u-42'')))
           \<and> header (fst (verify_token sample_runtime default_config sample_authority (Some ''Bearer good''))) ''X-User-Email'' =
               Some (JStr (py_str sample_runtime (JStr ''ada@example.org'')))
           \<and> header (fst (verify_token sample_runtime default_config sample_authority (Some ''Bearer good''))) ''X-User-Roles'' =
               Some (JStr joined)
           \<and> header (fst (verify_token sample_runtime default_config sample_authority (Some ''Bearer good''))) ''X-User-Scopes'' =
               Some (JStr (py_str sample_runtime (JStr ''openid weather:read''))))"
    using t a b by simp
  from t' c have "status_code (fst (verify_token sample_runtime default_config sample_authority (Some ''Bearer good''))) = 200"
    by blast
  moreover from t' c have "header (fst (verify_token sample_runtime default_config sample_authority (Some ''Bearer good''))) ''X-User-Sub'' =
               Some (JStr (py_str sample_runtime (JStr ''u-42'')))
           \<and> header (fst (verify_token sample_runtime default_config sample_authority (Some ''Bearer good''))) ''X-User-Email'' =
               Some (JStr (py_str sample_runtime (JStr ''ada@example.org'')))
           \<and> header (fst (verify_token sample_runtime default_config sample_authority (Some ''Bearer good''))) ''X-User-Roles'' =
               Some (JStr ''user,admin'')
           \<and> header (fst (verify_token sample_runtime default_config sample_authority (Some ''Bearer good''))) ''X-User-Scopes'' =
               Some (JStr (py_str sample_runtime (JStr ''openid weather:read'')))"
    by blast
  ultimately show ?thesis by simp
qed

text \<open>
  C3. A request with no \<open>Authorization\<close> header, or with one that does not start with
  \<open>Bearer \<close>, is answered with status 401, a \<open>WWW-Authenticate\<close> challenge that contains
  \<open>error="invalid_token"\<close>, and the JSON body with \<open>error\<close> (\<open>unauthorized\<close>),
  \<open>error_description\<close>, \<open>authorization_uri\<close> and \<open>discovery_uri\<close>; nothing is sent to the
  introspection authority.
\<close>

theorem verify_missing_bearer:
  assumes "authorization = None \<or> (\<exists>h. authorization = Some h \<and> \<not> startswith h ''Bearer '')"
  shows "status_code (fst (verify_token rt cfg auth authorization)) = 401
       \<and> header (fst (verify_token rt cfg auth authorization)) ''WWW-Authenticate'' =
           Some (JStr (''Bearer realm='' @ dq @ ''mcp-gateway'' @ dq @ '', '' @
                       ''error='' @ dq @ ''invalid_token'' @ dq @ '', '' @
                       ''error_description='' @ dq @ ''Bearer token required'' @ dq @ '', '' @
                       ''authorization_uri='' @ dq @ auth_url cfg @ dq @ '', '' @
                       ''discovery_uri='' @ dq @ discovery_url cfg @ dq))
       \<and> body (fst (verify_token rt cfg auth authorization)) =
           JObj [(''error'', JStr ''unauthorized''),
                 (''error_description'', JStr ''Bearer token required''),
                 (''authorization_uri'', JStr (auth_url cfg)),
                 (''discovery_uri'', JStr (discovery_url cfg))]
       \<and> snd (verify_token rt cfg auth authorization) = []"
  using assms
  by (auto simp: verify_token_def unauthorized_def header_def www_authenticate_def)

theorem verify_missing_bearer_witness:
  "status_code (fst (verify_token sample_runtime default_config sample_authority (Some ''Basic good''))) = 401
   \<and> header (fst (verify_token sample_runtime default_config sample_authority (Some ''Basic good'')))
         ''WWW-Authenticate'' =
         Some (JStr (''Bearer realm='' @ dq @ ''mcp-gateway'' @ dq @
               '', error='' @ dq @ ''invalid_token'' @ dq @
               '', error_description='' @ dq @ ''Bearer token required'' @ dq @
               '', authorization_uri='' @ dq @
               ''http://keycloak:8080/realms/mcp-gateway/protocol/openid-connect/auth'' @ dq @
               '', discovery_uri='' @ dq @
               ''http://keycloak:8080/realms/mcp-gateway/.well-known/openid-configuration'' @ dq))
   \<and> snd (verify_token sample_runtime default_config sample_authority (Some ''Basic good'')) = []
   \<and> snd (verify_token sample_runtime default_config sample_authority None) = []
   \<and> status_code (fst (verify_token sample_runtime default_config sample_authority None)) = 401"
  using verify_missing_bearer [where authorization = "Some ''Basic good''" and rt = sample_runtime
          and cfg = default_config and auth = sample_authority]
        verify_missing_bearer [where authorization = None and rt = sample_runtime
          and cfg = default_config and auth = sample_authority]
  by (simp add: auth_url_def discovery_url_def default_config_def)

lemma verify_token_cases:
  "(\<not> startswith (case authorization of None \<Rightarrow> [] | Some h \<Rightarrow> h) ''Bearer ''
      \<and> verify_token rt cfg auth authorization =
          (unauthorized cfg ''Bearer token required'' ''Bearer token required'', []))
   \<or> (\<exists>h e. authorization = Some h \<and> startswith h ''Bearer '' \<and> verify_try rt auth (drop 7 h) = Inl e
      \<and> verify_token rt cfg auth authorization =
          (unauthorized cfg (str_exn e) ''Token validation failed'', [drop 7 h]))
   \<or> (\<exists>h resp. authorization = Some h \<and> startswith h ''Bearer '' \<and> verify_try rt auth (drop 7 h) = Inr resp
      \<and> status_code resp = 200
      \<and> verify_token rt cfg auth authorization = (resp, [drop 7 h]))"
proof (cases "startswith (case authorization of None \<Rightarrow> [] | Some h \<Rightarrow> h) ''Bearer ''")
  case False
  then show ?thesis by (simp add: verify_token_def)
next
  case True
  then obtain h where h: "authorization = Some h" "startswith h ''Bearer ''"
    by (cases authorization) auto
  show ?thesis
  proof (cases "verify_try rt auth (drop 7 h)")
    case (Inl e)
    with h show ?thesis by (simp add: verify_token_def)
  next
    case (Inr resp)
    with h verify_try_status[OF Inr] show ?thesis by (simp add: verify_token_def)
  qed
qed

lemma verify_try_inactive:
  assumes "auth token = Inr (JObj info)"
    and "map_of info ''active'' = None \<or> map_of info ''active'' = Some (JBool False)"
  shows "verify_try rt auth token = Inl (Exn ''ValueError'' ''Token is not active'')"
  using assms by (auto simp: verify_try_def introspect_token_def)

lemma verify_try_raised:
  assumes "introspect_token auth token = Inl e"
  shows "verify_try rt auth token = Inl e"
  using assms by (simp add: verify_try_def)

text \<open>
  C4. A token whose introspection result has the \<open>active\<close> flag false or absent is answered
  with status 401; and whatever the request and the reason, a response with status 401
  sets none of \<open>X-User-Sub\<close>, \<open>X-User-Email\<close>, \<open>X-User-Roles\<close>, \<open>X-User-Scopes\<close>.
\<close>

theorem verify_inactive_token:
  "(startswith h ''Bearer '' \<and> auth (drop 7 h) = Inr (JObj info)
     \<and> (map_of info ''active'' = None \<or> map_of info ''active'' = Some (JBool False))
     \<longrightarrow> status_code (fst (verify_token rt cfg auth (Some h))) = 401)
   \<and> (status_code (fst (verify_token rt cfg auth authorization)) = 401
     \<longrightarrow> header (fst (verify_token rt cfg auth authorization)) ''X-User-Sub'' = None
       \<and> header (fst (verify_token rt cfg auth authorization)) ''X-User-Email'' = None
       \<and> header (fst (verify_token rt cfg auth authorization)) ''X-User-Roles'' = None
       \<and> header (fst (verify_token rt cfg auth authorization)) ''X-User-Scopes'' = None)"
proof (intro conjI impI)
  assume "startswith h ''Bearer '' \<and> auth (drop 7 h) = Inr (JObj info)
     \<and> (map_of info ''active'' = None \<or> map_of info ''active'' = Some (JBool False))"
  then show "status_code (fst (verify_token rt cfg auth (Some h))) = 401"
    using verify_try_inactive[of auth "drop 7 h" info rt]
    by (simp add: verify_token_def unauthorized_def)
next
  assume a: "status_code (fst (verify_token rt cfg auth authorization)) = 401"
  from verify_token_cases[of authorization rt cfg auth] a
  obtain bd hd where "fst (verify_token rt cfg auth authorization) = unauthorized cfg bd hd"
    by auto
  then show "header (fst (verify_token rt cfg auth authorization)) ''X-User-Sub'' = None"
    "header (fst (verify_token rt cfg auth authorization)) ''X-User-Email'' = None"
    "header (fst (verify_token rt cfg auth authorization)) ''X-User-Roles'' = None"
    "header (fst (verify_token rt cfg auth authorization)) ''X-User-Scopes'' = None"
    by (simp_all add: header_def unauthorized_def)
qed

theorem verify_inactive_token_witness:
  "status_code (fst (verify_token sample_runtime default_config sample_authority (Some ''Bearer stale''))) = 401
   \<and> header (fst (verify_token sample_runtime default_config sample_authority (Some ''Bearer stale''))) ''X-User-Sub'' = None
   \<and> header (fst (verify_token sample_runtime default_config sample_authority (Some ''Bearer stale''))) ''X-User-Email'' = None
   \<and> header (fst (verify_token sample_runtime default_config sample_authority (Some ''Bearer stale''))) ''X-User-Roles'' = None
   \<and> header (fst (verify_token sample_runtime default_config sample_authority (Some ''Bearer stale''))) ''X-User-Scopes'' = None"
  using verify_inactive_token [where h = "''Bearer stale''" and auth = sample_authority
      and info = "[(''active'', JBool False)]" and rt = sample_runtime and cfg = default_config
      and authorization = "Some ''Bearer stale''"]
  by (simp add: sample_authority_def)

text \<open>
  C5 reads the reason in the challenge as the underlying error description when
  introspection fails. The source writes the fixed text \<open>Token validation failed\<close> into
  the challenge of every rejection after the prefix check, and the description of the
  exception into the JSON body only: with an authority that refuses the connection, the
  challenge does not carry \<open>connection refused\<close>.
\<close>

theorem challenge_reason_counterexample:
  "introspect_token refusing_authority ''good'' = Inl (Exn ''ConnectionError'' ''connection refused'')
   \<and> status_code (fst (verify_token sample_runtime default_config refusing_authority (Some ''Bearer good''))) = 401
   \<and> header (fst (verify_token sample_runtime default_config refusing_authority (Some ''Bearer good''))) ''WWW-Authenticate'' =
       Some (JStr (''Bearer realm='' @ dq @ ''mcp-gateway'' @ dq @
               '', error='' @ dq @ ''invalid_token'' @ dq @
               '', error_description='' @ dq @ ''Token validation failed'' @ dq @
               '', authorization_uri='' @ dq @
               ''http://keycloak:8080/realms/mcp-gateway/protocol/openid-connect/auth'' @ dq @
               '', discovery_uri='' @ dq @
               ''http://keycloak:8080/realms/mcp-gateway/.well-known/openid-configuration'' @ dq))
   \<and> header (fst (verify_token sample_runtime default_config refusing_authority (Some ''Bearer good''))) ''WWW-Authenticate'' \<noteq>
       Some (JStr (''Bearer realm='' @ dq @ ''mcp-gateway'' @ dq @
               '', error='' @ dq @ ''invalid_token'' @ dq @
               '', error_description='' @ dq @ ''connection refused'' @ dq @
               '', authorization_uri='' @ dq @
               ''http://keycloak:8080/realms/mcp-gateway/protocol/openid-connect/auth'' @ dq @
               '', discovery_uri='' @ dq @
               ''http://keycloak:8080/realms/mcp-gateway/.well-known/openid-configuration'' @ dq))"
  by (simp add: verify_token_def verify_try_def introspect_token_def refusing_authority_def
      unauthorized_def header_def www_authenticate_def auth_url_def discovery_url_def
      default_config_def dq_def)

text \<open>
  C5, as the source has it. Every response with status 401 carries a \<open>WWW-Authenticate\<close>
  header of the form \<open>Bearer realm="<realm>", error="invalid_token",
  error_description="<reason>", authorization_uri="<url>", discovery_uri="<url>"\<close> (the
  source writes the realm \<open>mcp-gateway\<close>), where the reason is the fixed text
  \<open>Bearer token required\<close> when the \<open>Bearer \<close> prefix is missing and the fixed text
  \<open>Token validation failed\<close> for every other rejection; when the introspection call raises,
  the description of its exception is the \<open>error_description\<close> of the JSON body.
\<close>

theorem verify_rejected_challenge:
  assumes "status_code (fst (verify_token rt cfg auth authorization)) = 401"
  shows "header (fst (verify_token rt cfg auth authorization)) ''WWW-Authenticate'' =
           Some (JStr (''Bearer realm='' @ dq @ ''mcp-gateway'' @ dq @ '', '' @
                       ''error='' @ dq @ ''invalid_token'' @ dq @ '', '' @
                       ''error_description='' @ dq @
                         (if startswith (case authorization of None \<Rightarrow> [] | Some h \<Rightarrow> h) ''Bearer ''
                          then ''Token validation failed'' else ''Bearer token required'') @ dq @ '', '' @
                       ''authorization_uri='' @ dq @ auth_url cfg @ dq @ '', '' @
                       ''discovery_uri='' @ dq @ discovery_url cfg @ dq))
       \<and> (\<forall>h e. authorization = Some h \<and> startswith h ''Bearer ''
                \<and> introspect_token auth (drop 7 h) = Inl e
            \<longrightarrow> body (fst (verify_token rt cfg auth authorization)) =
                 JObj [(''error'', JStr ''unauthorized''),
                       (''error_description'', JStr (str_exn e)),
                       (''authorization_uri'', JStr (auth_url cfg)),
                       (''discovery_uri'', JStr (discovery_url cfg))])"
proof (intro conjI allI impI)
  show "header (fst (verify_token rt cfg auth authorization)) ''WWW-Authenticate'' =
           Some (JStr (''Bearer realm='' @ dq @ ''mcp-gateway'' @ dq @ '', '' @
                       ''error='' @ dq @ ''invalid_token'' @ dq @ '', '' @
                       ''error_description='' @ dq @
                         (if startswith (case authorization of None \<Rightarrow> [] | Some h \<Rightarrow> h) ''Bearer ''
                          then ''Token validation failed'' else ''Bearer token required'') @ dq @ '', '' @
                       ''authorization_uri='' @ dq @ auth_url cfg @ dq @ '', '' @
                       ''discovery_uri='' @ dq @ discovery_url cfg @ dq))"
    using verify_token_cases[of authorization rt cfg auth] assms
    by (auto simp: header_def unauthorized_def www_authenticate_def)
next
  fix h e
  assume "authorization = Some h \<and> startswith h ''Bearer '' \<and> introspect_token auth (drop 7 h) = Inl e"
  then show "body (fst (verify_token rt cfg auth authorization)) =
                 JObj [(''error'', JStr ''unauthorized''),
                       (''error_description'', JStr (str_exn e)),
                       (''authorization_uri'', JStr (auth_url cfg)),
                       (''discovery_uri'', JStr (discovery_url cfg))]"
    using verify_try_raised[of auth "drop 7 h" e rt]
    by (simp add: verify_token_def unauthorized_def)
qed

theorem verify_rejected_challenge_witness:
  "header (fst (verify_token sample_runtime default_config refusing_authority (Some ''Bearer good''))) ''WWW-Authenticate'' =
       Some (JStr (''Bearer realm='' @ dq @ ''mcp-gateway'' @ dq @
               '', error='' @ dq @ ''invalid_token'' @ dq @
               '', error_description='' @ dq @ ''Token validation failed'' @ dq @
               '', authorization_uri='' @ dq @
               ''http://keycloak:8080/realms/mcp-gateway/protocol/openid-connect/auth'' @ dq @
               '', discovery_uri='' @ dq @
               ''http://keycloak:8080/realms/mcp-gateway/.well-known/openid-configuration'' @ dq))
   \<and> body (fst (verify_token sample_runtime default_config refusing_authority (Some ''Bearer good''))) =
       JObj [(''error'', JStr ''unauthorized''),
             (''error_description'', JStr ''connection refused''),
             (''authorization_uri'', JStr ''http://keycloak:8080/realms/mcp-gateway/protocol/openid-connect/auth''),
             (''discovery_uri'', JStr ''http://keycloak:8080/realms/mcp-gateway/.well-known/openid-configuration'')]"
proof -
  have s: "status_code (fst (verify_token sample_runtime default_config refusing_authority (Some ''Bearer good''))) = 401"
    by (simp add: verify_token_def verify_try_def introspect_token_def refusing_authority_def
        unauthorized_def)
  have i: "introspect_token refusing_authority (drop 7 ''Bearer good'') = Inl (Exn ''ConnectionError'' ''connection refused'')"
    by (simp add: introspect_token_def refusing_authority_def)
  from verify_rejected_challenge [OF s] i show ?thesis
    by (simp add: auth_url_def discovery_url_def default_config_def)
qed

text \<open>
  C10 says that a request with an empty or blank token after \<open>Bearer \<close> is rejected. The
  gateway has no check of its own on the token: with an authority that reports the empty
  token and the blank token active, both requests are answered with status 200.
\<close>

theorem blank_token_counterexample:
  "snd (verify_token sample_runtime default_config trusting_authority (Some ''Bearer '')) = [[]]
   \<and> status_code (fst (verify_token sample_runtime default_config trusting_authority
                         (Some ''Bearer ''))) = 200
   \<and> snd (verify_token sample_runtime default_config trusting_authority (Some ''Bearer   '')) =
       [''  '']
   \<and> status_code (fst (verify_token sample_runtime default_config trusting_authority
                         (Some ''Bearer   ''))) = 200"
  by (simp add: verify_token_def verify_try_def introspect_token_def trusting_authority_def
      sample_claims_def header_value_def has_newline_def)

text \<open>
  C10, as the source has it. For an \<open>Authorization\<close> header \<open>Bearer \<close> followed by any
  remainder \<open>t\<close> (the empty string and a run of spaces among them), the prefix check passes
  and \<open>t\<close>, unchanged, is the one token sent to the introspection authority. The response
  is never the one of a missing bearer token. The outcome is the one of the introspection
  path: the request is rejected with the description of the exception when introspection
  raises, rejected with \<open>Token is not active\<close> when the result has no true \<open>active\<close> flag,
  rejected exactly when the \<open>try\<close> block raises, and answered with status 200 exactly when
  the \<open>try\<close> block returns.
\<close>

theorem verify_empty_token:
  "snd (verify_token rt cfg auth (Some (''Bearer '' @ t))) = [t]
   \<and> fst (verify_token rt cfg auth (Some (''Bearer '' @ t))) \<noteq>
       unauthorized cfg ''Bearer token required'' ''Bearer token required''
   \<and> (\<forall>e. introspect_token auth t = Inl e \<longrightarrow>
        fst (verify_token rt cfg auth (Some (''Bearer '' @ t))) =
          unauthorized cfg (str_exn e) ''Token validation failed'')
   \<and> (\<forall>info. introspect_token auth t = Inr (JObj info)
          \<and> (map_of info ''active'' = None \<or> map_of info ''active'' = Some (JBool False)) \<longrightarrow>
        fst (verify_token rt cfg auth (Some (''Bearer '' @ t))) =
          unauthorized cfg ''Token is not active'' ''Token validation failed'')
   \<and> (status_code (fst (verify_token rt cfg auth (Some (''Bearer '' @ t)))) = 401 \<longleftrightarrow>
        (\<exists>e. verify_try rt auth t = Inl e))
   \<and> (\<forall>e. verify_try rt auth t = Inl e \<longrightarrow>
        fst (verify_token rt cfg auth (Some (''Bearer '' @ t))) =
          unauthorized cfg (str_exn e) ''Token validation failed'')
   \<and> (status_code (fst (verify_token rt cfg auth (Some (''Bearer '' @ t)))) = 200 \<longleftrightarrow>
        (\<exists>resp. verify_try rt auth t = Inr resp))
   \<and> (\<forall>resp. verify_try rt auth t = Inr resp \<longrightarrow>
        fst (verify_token rt cfg auth (Some (''Bearer '' @ t))) = resp)"
proof -
  have neq: "unauthorized cfg d ''Token validation failed'' \<noteq>
             unauthorized cfg ''Bearer token required'' ''Bearer token required''" for d
    by (simp add: unauthorized_def www_authenticate_def)
  have st: "status_code (unauthorized cfg a b) = 401" for a b
    by (simp add: unauthorized_def)
  have tok: "verify_token rt cfg auth (Some (''Bearer '' @ t)) =
     (case verify_try rt auth t of
        Inr resp \<Rightarrow> resp
      | Inl e \<Rightarrow> unauthorized cfg (str_exn e) ''Token validation failed'',
      [t])"
    using verify_token_bearer[of "''Bearer '' @ t" rt cfg auth] by simp
  show ?thesis
  proof (cases "verify_try rt auth t")
    case (Inl e)
    then show ?thesis
      using neq st tok verify_try_raised[of auth t _ rt] verify_try_inactive[of auth t _ rt]
      by (auto simp: introspect_token_def)
  next
    case (Inr resp)
    then show ?thesis
      using verify_try_status[OF Inr] st[of "''Bearer token required''" "''Bearer token required''"]
        tok verify_try_raised[of auth t _ rt] verify_try_inactive[of auth t _ rt]
      by (auto simp: introspect_token_def)
  qed
qed

theorem verify_empty_token_witness:
  "snd (verify_token sample_runtime default_config sample_authority (Some ''Bearer '')) = [[]]
   \<and> snd (verify_token sample_runtime default_config refusing_authority (Some ''Bearer   '')) = [''  '']
   \<and> fst (verify_token sample_runtime default_config sample_authority (Some ''Bearer '')) =
       unauthorized default_config ''Token is not active'' ''Token validation failed''
   \<and> fst (verify_token sample_runtime default_config refusing_authority (Some ''Bearer   '')) =
       unauthorized default_config ''connection refused'' ''Token validation failed''"
proof -
  note a = verify_empty_token [where rt = sample_runtime and cfg = default_config
      and auth = sample_authority and t = "[]"]
  note b = verify_empty_token [where rt = sample_runtime and cfg = default_config
      and auth = refusing_authority and t = "''  ''"]
  have i: "introspect_token sample_authority [] = Inr (JObj [(''active'', JBool False)])"
    by (simp add: introspect_token_def sample_authority_def)
  have r: "introspect_token refusing_authority ''  '' =
             Inl (Exn ''ConnectionError'' ''connection refused'')"
    by (simp add: introspect_token_def refusing_authority_def)
  from a i have 1: "snd (verify_token sample_runtime default_config sample_authority (Some ''Bearer '')) = [[]]
     \<and> fst (verify_token sample_runtime default_config sample_authority (Some ''Bearer '')) =
       unauthorized default_config ''Token is not active'' ''Token validation failed''"
    by simp
  from b r have 2: "snd (verify_token sample_runtime default_config refusing_authority (Some ''Bearer   '')) = [''  '']
     \<and> fst (verify_token sample_runtime default_config refusing_authority (Some ''Bearer   '')) =
       unauthorized default_config ''connection refused'' ''Token validation failed''"
    by simp
  from 1 2 show ?thesis by simp
qed

section \<open>Properties of the resource servers\<close>

text \<open>The endpoints, branch by branch.\<close>

lemma calc_parse_error:
  "parse_request rt rj = Inl e \<Longrightarrow> calc_mcp_endpoint rt rj hs he hr hc = Inr (parse_error_response e)"
  by (simp add: calc_mcp_endpoint_def)

lemma calc_tools_list:
  "parse_request rt rj = Inr req \<Longrightarrow> rpc_method req = ''tools/list'' \<Longrightarrow>
   calc_mcp_endpoint rt rj hs he hr hc =
     Inr (returned (result_envelope (rpc_id req) (JObj [(''tools'', calc_MCP_TOOLS)])))"
  by (simp add: calc_mcp_endpoint_def)

lemma calc_tools_call:
  "parse_request rt rj = Inr req \<Longrightarrow> rpc_method req = ''tools/call'' \<Longrightarrow>
   calc_mcp_endpoint rt rj hs he hr hc =
     (if \<not> calc_check_scope (calc_get_user_scopes (header_or ''calculator:read'' hc)) ''calculator:read'' then
        Inr (returned (error_envelope (rpc_id req) (- 32600)
               ''Insufficient permissions'' ''Required scope: calculator:read''))
      else
        (case calc_execute rt (params_get req ''name'' JNull) (params_get req ''arguments'' (JObj [])) of
           Inl e \<Rightarrow> Inl e
         | Inr None \<Rightarrow>
             Inr (returned (error_envelope (rpc_id req) (- 32601) ''Method not found''
                   (''Unknown tool: '' @ py_str rt (params_get req ''name'' JNull))))
         | Inr (Some result) \<Rightarrow>
             Inr (returned (result_envelope (rpc_id req)
                   (tool_result result (header_or ''anonymous'' hs) (header_or [] he))))))"
  by (simp add: calc_mcp_endpoint_def Let_def)

lemma calc_other_method:
  "parse_request rt rj = Inr req \<Longrightarrow> rpc_method req \<noteq> ''tools/call'' \<Longrightarrow> rpc_method req \<noteq> ''tools/list'' \<Longrightarrow>
   calc_mcp_endpoint rt rj hs he hr hc =
     (if rpc_method req = ''initialize'' then
        Inr (returned (result_envelope (rpc_id req) (initialize_result ''mcp-calculator-server'')))
      else Inr (returned (error_envelope (rpc_id req) (- 32601) ''Method not found''
                  (''Unknown method: '' @ rpc_method req))))"
  by (simp add: calc_mcp_endpoint_def Let_def)

lemma weather_parse_error:
  "parse_request rt rj = Inl e \<Longrightarrow> weather_mcp_endpoint rt rj hs he hr hc = Inr (parse_error_response e)"
  by (simp add: weather_mcp_endpoint_def)

lemma weather_tools_list:
  "parse_request rt rj = Inr req \<Longrightarrow> rpc_method req = ''tools/list'' \<Longrightarrow>
   weather_mcp_endpoint rt rj hs he hr hc =
     Inr (returned (result_envelope (rpc_id req) (JObj [(''tools'', weather_MCP_TOOLS)])))"
  by (simp add: weather_mcp_endpoint_def)

lemma weather_tools_call:
  "parse_request rt rj = Inr req \<Longrightarrow> rpc_method req = ''tools/call'' \<Longrightarrow>
   weather_mcp_endpoint rt rj hs he hr hc =
     (if \<not> weather_check_scope (weather_get_user_scopes (header_or ''weather:read'' hc)) ''weather:read'' then
        Inr (returned (error_envelope (rpc_id req) (- 32600)
               ''Insufficient permissions'' ''Required scope: weather:read''))
      else
        (case weather_execute rt (params_get req ''name'' JNull) (params_get req ''arguments'' (JObj [])) of
           Inl e \<Rightarrow> Inl e
         | Inr None \<Rightarrow>
             Inr (returned (error_envelope (rpc_id req) (- 32601) ''Method not found''
                   (''Unknown tool: '' @ py_str rt (params_get req ''name'' JNull))))
         | Inr (Some result) \<Rightarrow>
             Inr (returned (result_envelope (rpc_id req)
                   (tool_result result (header_or ''anonymous'' hs) (header_or [] he))))))"
  by (simp add: weather_mcp_endpoint_def Let_def)

lemma weather_other_method:
  "parse_request rt rj = Inr req \<Longrightarrow> rpc_method req \<noteq> ''tools/call'' \<Longrightarrow> rpc_method req \<noteq> ''tools/list'' \<Longrightarrow>
   weather_mcp_endpoint rt rj hs he hr hc =
     (if rpc_method req = ''initialize'' then
        Inr (returned (result_envelope (rpc_id req) (initialize_result ''mcp-weather-server'')))
      else Inr (returned (error_envelope (rpc_id req) (- 32601) ''Method not found''
                  (''Unknown method: '' @ rpc_method req))))"
  by (simp add: weather_mcp_endpoint_def Let_def)

text \<open>The outcomes of an endpoint, by the branch taken.\<close>

lemma calc_outcomes:
  "(\<exists>e. parse_request rt rj = Inl e
        \<and> calc_mcp_endpoint rt rj hs he hr hc = Inr (parse_error_response e))
   \<or> (\<exists>req r. parse_request rt rj = Inr req
        \<and> calc_mcp_endpoint rt rj hs he hr hc = Inr (returned (result_envelope (rpc_id req) r)))
   \<or> (\<exists>req c m d. parse_request rt rj = Inr req
        \<and> calc_mcp_endpoint rt rj hs he hr hc = Inr (returned (error_envelope (rpc_id req) c m d)))
   \<or> (\<exists>req e. parse_request rt rj = Inr req \<and> rpc_method req = ''tools/call''
        \<and> calc_check_scope (calc_get_user_scopes (header_or ''calculator:read'' hc)) ''calculator:read''
        \<and> calc_execute rt (params_get req ''name'' JNull) (params_get req ''arguments'' (JObj [])) = Inl e
        \<and> calc_mcp_endpoint rt rj hs he hr hc = Inl e)"
proof (cases "parse_request rt rj")
  case (Inl e)
  then show ?thesis using calc_parse_error[OF Inl] by blast
next
  case (Inr req)
  consider (list) "rpc_method req = ''tools/list''" | (call) "rpc_method req = ''tools/call''"
    | (other) "rpc_method req \<noteq> ''tools/call''" "rpc_method req \<noteq> ''tools/list''"
    by blast
  then show ?thesis
  proof cases
    case list
    show ?thesis using calc_tools_list[OF Inr list] Inr by blast
  next
    case call
    show ?thesis
      using calc_tools_call[OF Inr call, of hs he hr hc] Inr call
      by (auto split: sum.splits option.splits if_splits)
  next
    case other
    show ?thesis
      using calc_other_method[OF Inr other, of hs he hr hc] Inr
      by (auto split: if_splits)
  qed
qed

lemma weather_outcomes:
  "(\<exists>e. parse_request rt rj = Inl e
        \<and> weather_mcp_endpoint rt rj hs he hr hc = Inr (parse_error_response e))
   \<or> (\<exists>req r. parse_request rt rj = Inr req
        \<and> weather_mcp_endpoint rt rj hs he hr hc = Inr (returned (result_envelope (rpc_id req) r)))
   \<or> (\<exists>req c m d. parse_request rt rj = Inr req
        \<and> weather_mcp_endpoint rt rj hs he hr hc = Inr (returned (error_envelope (rpc_id req) c m d)))
   \<or> (\<exists>req e. parse_request rt rj = Inr req \<and> rpc_method req = ''tools/call''
        \<and> weather_check_scope (weather_get_user_scopes (header_or ''weather:read'' hc)) ''weather:read''
        \<and> weather_execute rt (params_get req ''name'' JNull) (params_get req ''arguments'' (JObj [])) = Inl e
        \<and> weather_mcp_endpoint rt rj hs he hr hc = Inl e)"
proof (cases "parse_request rt rj")
  case (Inl e)
  then show ?thesis using weather_parse_error[OF Inl] by blast
next
  case (Inr req)
  consider (list) "rpc_method req = ''tools/list''" | (call) "rpc_method req = ''tools/call''"
    | (other) "rpc_method req \<noteq> ''tools/call''" "rpc_method req \<noteq> ''tools/list''"
    by blast
  then show ?thesis
  proof cases
    case list
    show ?thesis using weather_tools_list[OF Inr list] Inr by blast
  next
    case call
    show ?thesis
      using weather_tools_call[OF Inr call, of hs he hr hc] Inr call
      by (auto split: sum.splits option.splits if_splits)
  next
    case other
    show ?thesis
      using weather_other_method[OF Inr other, of hs he hr hc] Inr
      by (auto split: if_splits)
  qed
qed

lemma envelope_members [simp]:
  "envelope_member (returned (result_envelope i r)) ''result'' = Some r"
  "envelope_member (returned (result_envelope i r)) ''error'' = None"
  "envelope_member (returned (result_envelope i r)) ''id'' = Some i"
  "envelope_member (returned (error_envelope i c m d)) ''result'' = None"
  "envelope_member (returned (error_envelope i c m d)) ''error'' =
     Some (JObj [(''code'', JInt c), (''message'', JStr m), (''data'', JStr d)])"
  "envelope_member (returned (error_envelope i c m d)) ''id'' = Some i"
  "envelope_member (parse_error_response e) ''result'' = None"
  "envelope_member (parse_error_response e) ''error'' =
     Some (JObj [(''code'', JInt (- 32700)), (''message'', JStr ''Parse error''), (''data'', JStr (str_exn e))])"
  "envelope_member (parse_error_response e) ''id'' = Some JNull"
  by (simp_all add: returned_def result_envelope_def error_envelope_def parse_error_response_def
      JSONResponse_def)

lemma response_status [simp]:
  "status_code (returned b) = 200"
  "status_code (parse_error_response e) = 400"
  by (simp_all add: returned_def parse_error_response_def JSONResponse_def)

lemma validate_fields_id:
  assumes "validate_fields kvs = Some req"
  shows "\<exists>i. map_of kvs ''id'' = Some i \<and> id_field (Some i) = Some (rpc_id req)"
proof (cases "map_of kvs ''id''")
  case None
  with assms show ?thesis
    by (simp add: validate_fields_def split: option.splits)
next
  case (Some i)
  with assms show ?thesis
    by (auto simp: validate_fields_def split: option.splits)
qed

lemma parse_request_body:
  assumes "parse_request rt rj = Inr req"
  shows "\<exists>kvs i. rj = Inr (JObj kvs) \<and> map_of kvs ''id'' = Some i
           \<and> id_field (Some i) = Some (rpc_id req)"
proof -
  from assms obtain b where b: "rj = Inr b" "new_JsonRpcRequest rt b = Inr req"
    by (auto simp: parse_request_def and_then_Inr_iff)
  then obtain kvs where k: "b = JObj kvs" "validate_fields kvs = Some req"
    by (cases b) (auto split: option.splits)
  with b validate_fields_id[OF k(2)] show ?thesis by blast
qed

lemma id_field_cases:
  assumes "id_field (Some i) = Some j"
  shows "((\<exists>n. i = JInt n) \<or> (\<exists>s. i = JStr s) \<longrightarrow> j = i)
       \<and> (\<forall>b. i = JBool b \<longrightarrow> j = JInt (if b then 1 else 0))
       \<and> (i = JFloat NegZero \<longrightarrow> j = JInt 0)
       \<and> (\<forall>r. i = JFloat (Finite r) \<longrightarrow> r = of_int \<lfloor>r\<rfloor> \<and> j = JInt \<lfloor>r\<rfloor>)
       \<and> i \<noteq> JNull \<and> (\<forall>xs. i \<noteq> JArr xs) \<and> (\<forall>kvs. i \<noteq> JObj kvs)
       \<and> i \<noteq> JFloat PosInf \<and> i \<noteq> JFloat NegInf \<and> i \<noteq> JFloat NaN"
proof (cases i)
  case (JFloat x)
  with assms show ?thesis by (cases x) (auto split: if_splits)
qed (use assms in auto)

text \<open>
  C8 says that the response \<open>id\<close> equals the request's \<open>id\<close> for every dispatch outcome.
  The constructor turns an \<open>id\<close> that is \<open>true\<close> into the integer 1, which is what an
  \<open>initialize\<close> request with that \<open>id\<close> gets back; and a \<open>tools/call\<close> whose \<open>arguments\<close>
  member is \<open>null\<close> raises out of the endpoint, so that no envelope is returned at all.
\<close>

theorem bool_id_counterexample:
  "calc_mcp_endpoint sample_runtime (Inr sample_bool_id_request) None None None None =
     Inr (returned (JObj [(''jsonrpc'', JStr ''2.0''), (''id'', JInt 1),
            (''result'', initialize_result ''mcp-calculator-server'')]))
   \<and> sample_bool_id_request =
       JObj [(''jsonrpc'', JStr ''2.0''), (''id'', JBool True), (''method'', JStr ''initialize''),
             (''params'', JObj [])]
   \<and> JInt 1 \<noteq> JBool True
   \<and> weather_mcp_endpoint sample_runtime (Inr sample_null_arguments_request) None None None None =
     Inl (Exn ''AttributeError''
           (sq @ ''NoneType'' @ sq @ '' object has no attribute '' @ sq @ ''get'' @ sq))"
proof -
  have p: "parse_request sample_runtime (Inr sample_bool_id_request) =
      Inr \<lparr>rpc_jsonrpc = ''2.0'', rpc_id = JInt 1, rpc_method = ''initialize'', rpc_params = []\<rparr>"
    by (simp add: parse_request_def sample_bool_id_request_def rpc_body_def validate_fields_def)
  have q: "parse_request sample_runtime (Inr sample_null_arguments_request) =
      Inr \<lparr>rpc_jsonrpc = ''2.0'', rpc_id = JInt 5, rpc_method = ''tools/call'',
           rpc_params = [(''name'', JStr ''get_weather_alerts''), (''arguments'', JNull)]\<rparr>"
    by (simp add: parse_request_def sample_null_arguments_request_def rpc_body_def
        validate_fields_def)
  have 1: "calc_mcp_endpoint sample_runtime (Inr sample_bool_id_request) None None None None =
     Inr (returned (JObj [(''jsonrpc'', JStr ''2.0''), (''id'', JInt 1),
            (''result'', initialize_result ''mcp-calculator-server'')]))"
    by (simp add: calc_other_method[OF p] result_envelope_def)
  have 2: "weather_mcp_endpoint sample_runtime (Inr sample_null_arguments_request) None None None None =
     Inl (Exn ''AttributeError''
           (sq @ ''NoneType'' @ sq @ '' object has no attribute '' @ sq @ ''get'' @ sq))"
    by (simp add: weather_tools_call[OF q] weather_get_user_scopes_def weather_check_scope_def
        split_space_def weather_execute_def params_get_def)
  show ?thesis
    using 1 2 by (simp add: sample_bool_id_request_def rpc_body_def)
qed

text \<open>
  C8, as the source has it. Every response either endpoint returns carries exactly one of
  \<open>result\<close> and \<open>error\<close>. Its \<open>id\<close> is \<open>null\<close> when the body did not parse. When it did, the
  body is a dict with an \<open>id\<close>, and the response \<open>id\<close> is that \<open>id\<close> when it is an integer or
  a string, and the integer it converts to when it is a boolean or a float without
  fractional part; no other \<open>id\<close> parses.
\<close>

theorem envelope_invariant:
  "(calc_mcp_endpoint rt rj hs he hr hc = Inr resp \<longrightarrow>
      (envelope_member resp ''result'' \<noteq> None) = (envelope_member resp ''error'' = None)
      \<and> (\<forall>e. parse_request rt rj = Inl e \<longrightarrow> envelope_member resp ''id'' = Some JNull)
      \<and> (\<forall>req. parse_request rt rj = Inr req \<longrightarrow>
           (\<exists>kvs i. rj = Inr (JObj kvs) \<and> map_of kvs ''id'' = Some i
              \<and> ((\<exists>n. i = JInt n) \<or> (\<exists>s. i = JStr s) \<longrightarrow> envelope_member resp ''id'' = Some i)
              \<and> (\<forall>b. i = JBool b \<longrightarrow>
                    envelope_member resp ''id'' = Some (JInt (if b then 1 else 0)))
              \<and> (i = JFloat NegZero \<longrightarrow> envelope_member resp ''id'' = Some (JInt 0))
              \<and> (\<forall>r. i = JFloat (Finite r) \<longrightarrow>
                    r = of_int \<lfloor>r\<rfloor> \<and> envelope_member resp ''id'' = Some (JInt \<lfloor>r\<rfloor>))
              \<and> i \<noteq> JNull \<and> (\<forall>xs. i \<noteq> JArr xs) \<and> (\<forall>m. i \<noteq> JObj m)
              \<and> i \<noteq> JFloat PosInf \<and> i \<noteq> JFloat NegInf \<and> i \<noteq> JFloat NaN)))
   \<and> (weather_mcp_endpoint rt rj hs he hr hc = Inr resp' \<longrightarrow>
      (envelope_member resp' ''result'' \<noteq> None) = (envelope_member resp' ''error'' = None)
      \<and> (\<forall>e. parse_request rt rj = Inl e \<longrightarrow> envelope_member resp' ''id'' = Some JNull)
      \<and> (\<forall>req. parse_request rt rj = Inr req \<longrightarrow>
           (\<exists>kvs i. rj = Inr (JObj kvs) \<and> map_of kvs ''id'' = Some i
              \<and> ((\<exists>n. i = JInt n) \<or> (\<exists>s. i = JStr s) \<longrightarrow> envelope_member resp' ''id'' = Some i)
              \<and> (\<forall>b. i = JBool b \<longrightarrow>
                    envelope_member resp' ''id'' = Some (JInt (if b then 1 else 0)))
              \<and> (i = JFloat NegZero \<longrightarrow> envelope_member resp' ''id'' = Some (JInt 0))
              \<and> (\<forall>r. i = JFloat (Finite r) \<longrightarrow>
                    r = of_int \<lfloor>r\<rfloor> \<and> envelope_member resp' ''id'' = Some (JInt \<lfloor>r\<rfloor>))
              \<and> i \<noteq> JNull \<and> (\<forall>xs. i \<noteq> JArr xs) \<and> (\<forall>m. i \<noteq> JObj m)
              \<and> i \<noteq> JFloat PosInf \<and> i \<noteq> JFloat NegInf \<and> i \<noteq> JFloat NaN)))"
proof -
  have ids: "\<exists>kvs i. rj = Inr (JObj kvs) \<and> map_of kvs ''id'' = Some i
              \<and> ((\<exists>n. i = JInt n) \<or> (\<exists>s. i = JStr s) \<longrightarrow> v = Some i)
              \<and> (\<forall>b. i = JBool b \<longrightarrow> v = Some (JInt (if b then 1 else 0)))
              \<and> (i = JFloat NegZero \<longrightarrow> v = Some (JInt 0))
              \<and> (\<forall>r. i = JFloat (Finite r) \<longrightarrow> r = of_int \<lfloor>r\<rfloor> \<and> v = Some (JInt \<lfloor>r\<rfloor>))
              \<and> i \<noteq> JNull \<and> (\<forall>xs. i \<noteq> JArr xs) \<and> (\<forall>m. i \<noteq> JObj m)
              \<and> i \<noteq> JFloat PosInf \<and> i \<noteq> JFloat NegInf \<and> i \<noteq> JFloat NaN"
    if p: "parse_request rt rj = Inr req" and v: "v = Some (rpc_id req)" for req v
  proof -
    from parse_request_body[OF p] obtain kvs i where
      k: "rj = Inr (JObj kvs)" "map_of kvs ''id'' = Some i" "id_field (Some i) = Some (rpc_id req)"
      by blast
    from id_field_cases[OF k(3)] k(1,2) v show ?thesis by blast
  qed
  have one: "(envelope_member r ''result'' \<noteq> None) = (envelope_member r ''error'' = None)
       \<and> (\<forall>e. parse_request rt rj = Inl e \<longrightarrow> envelope_member r ''id'' = Some JNull)
       \<and> (\<forall>req. parse_request rt rj = Inr req \<longrightarrow> envelope_member r ''id'' = Some (rpc_id req))"
    if "(\<exists>e. parse_request rt rj = Inl e \<and> r = parse_error_response e)
      \<or> (\<exists>req x. parse_request rt rj = Inr req \<and> r = returned (result_envelope (rpc_id req) x))
      \<or> (\<exists>req c m d. parse_request rt rj = Inr req \<and> r = returned (error_envelope (rpc_id req) c m d))"
    for r
    using that by (auto simp del: envelope_member.simps)
  have c: "(envelope_member resp ''result'' \<noteq> None) = (envelope_member resp ''error'' = None)
       \<and> (\<forall>e. parse_request rt rj = Inl e \<longrightarrow> envelope_member resp ''id'' = Some JNull)
       \<and> (\<forall>req. parse_request rt rj = Inr req \<longrightarrow> envelope_member resp ''id'' = Some (rpc_id req))"
    if "calc_mcp_endpoint rt rj hs he hr hc = Inr resp"
    using that calc_outcomes[of rt rj hs he hr hc] by (intro one) auto
  have w: "(envelope_member resp' ''result'' \<noteq> None) = (envelope_member resp' ''error'' = None)
       \<and> (\<forall>e. parse_request rt rj = Inl e \<longrightarrow> envelope_member resp' ''id'' = Some JNull)
       \<and> (\<forall>req. parse_request rt rj = Inr req \<longrightarrow> envelope_member resp' ''id'' = Some (rpc_id req))"
    if "weather_mcp_endpoint rt rj hs he hr hc = Inr resp'"
    using that weather_outcomes[of rt rj hs he hr hc] by (intro one) auto
  show ?thesis
  proof (intro conjI impI allI)
    assume a: "calc_mcp_endpoint rt rj hs he hr hc = Inr resp"
    show "(envelope_member resp ''result'' \<noteq> None) = (envelope_member resp ''error'' = None)"
      using c[OF a] by blast
  next
    fix e assume a: "calc_mcp_endpoint rt rj hs he hr hc = Inr resp" "parse_request rt rj = Inl e"
    show "envelope_member resp ''id'' = Some JNull" using c[OF a(1)] a(2) by blast
  next
    fix req assume a: "calc_mcp_endpoint rt rj hs he hr hc = Inr resp" "parse_request rt rj = Inr req"
    from c[OF a(1)] a(2) have "envelope_member resp ''id'' = Some (rpc_id req)" by blast
    from ids[OF a(2) this]
    show "\<exists>kvs i. rj = Inr (JObj kvs) \<and> map_of kvs ''id'' = Some i
              \<and> ((\<exists>n. i = JInt n) \<or> (\<exists>s. i = JStr s) \<longrightarrow> envelope_member resp ''id'' = Some i)
              \<and> (\<forall>b. i = JBool b \<longrightarrow>
                    envelope_member resp ''id'' = Some (JInt (if b then 1 else 0)))
              \<and> (i = JFloat NegZero \<longrightarrow> envelope_member resp ''id'' = Some (JInt 0))
              \<and> (\<forall>r. i = JFloat (Finite r) \<longrightarrow>
                    r = of_int \<lfloor>r\<rfloor> \<and> envelope_member resp ''id'' = Some (JInt \<lfloor>r\<rfloor>))
              \<and> i \<noteq> JNull \<and> (\<forall>xs. i \<noteq> JArr xs) \<and> (\<forall>m. i \<noteq> JObj m)
              \<and> i \<noteq> JFloat PosInf \<and> i \<noteq> JFloat NegInf \<and> i \<noteq> JFloat NaN" .
  next
    assume a: "weather_mcp_endpoint rt rj hs he hr hc = Inr resp'"
    show "(envelope_member resp' ''result'' \<noteq> None) = (envelope_member resp' ''error'' = None)"
      using w[OF a] by blast
  next
    fix e assume a: "weather_mcp_endpoint rt rj hs he hr hc = Inr resp'" "parse_request rt rj = Inl e"
    show "envelope_member resp' ''id'' = Some JNull" using w[OF a(1)] a(2) by blast
  next
    fix req assume a: "weather_mcp_endpoint rt rj hs he hr hc = Inr resp'" "parse_request rt rj = Inr req"
    from w[OF a(1)] a(2) have "envelope_member resp' ''id'' = Some (rpc_id req)" by blast
    from ids[OF a(2) this]
    show "\<exists>kvs i. rj = Inr (JObj kvs) \<and> map_of kvs ''id'' = Some i
              \<and> ((\<exists>n. i = JInt n) \<or> (\<exists>s. i = JStr s) \<longrightarrow> envelope_member resp' ''id'' = Some i)
              \<and> (\<forall>b. i = JBool b \<longrightarrow>
                    envelope_member resp' ''id'' = Some (JInt (if b then 1 else 0)))
              \<and> (i = JFloat NegZero \<longrightarrow> envelope_member resp' ''id'' = Some (JInt 0))
              \<and> (\<forall>r. i = JFloat (Finite r) \<longrightarrow>
                    r = of_int \<lfloor>r\<rfloor> \<and> envelope_member resp' ''id'' = Some (JInt \<lfloor>r\<rfloor>))
              \<and> i \<noteq> JNull \<and> (\<forall>xs. i \<noteq> JArr xs) \<and> (\<forall>m. i \<noteq> JObj m)
              \<and> i \<noteq> JFloat PosInf \<and> i \<noteq> JFloat NegInf \<and> i \<noteq> JFloat NaN" .
  qed
qed

theorem envelope_invariant_witness:
  "calc_mcp_endpoint sample_runtime (Inr sample_unknown_tool_request) None None None None =
     Inr (returned (error_envelope (JInt 4) (- 32601) ''Method not found'' ''Unknown tool: launch''))
   \<and> envelope_member (returned (error_envelope (JInt 4) (- 32601) ''Method not found'' ''Unknown tool: launch'')) ''result'' = None
   \<and> envelope_member (returned (error_envelope (JInt 4) (- 32601) ''Method not found'' ''Unknown tool: launch'')) ''error'' \<noteq> None
   \<and> envelope_member (returned (error_envelope (JInt 4) (- 32601) ''Method not found'' ''Unknown tool: launch'')) ''id'' = Some (JInt 4)
   \<and> weather_mcp_endpoint sample_runtime (Inl sample_decode_error) None None None None =
     Inr (parse_error_response sample_decode_error)
   \<and> envelope_member (parse_error_response sample_decode_error) ''result'' = None
   \<and> envelope_member (parse_error_response sample_decode_error) ''error'' \<noteq> None
   \<and> envelope_member (parse_error_response sample_decode_error) ''id'' = Some JNull"
proof -
  have p: "parse_request sample_runtime (Inr sample_unknown_tool_request) =
      Inr \<lparr>rpc_jsonrpc = ''2.0'', rpc_id = JInt 4, rpc_method = ''tools/call'',
           rpc_params = [(''name'', JStr ''launch''), (''arguments'', JObj [])]\<rparr>"
    by (simp add: parse_request_def sample_unknown_tool_request_def rpc_body_def validate_fields_def)
  have c: "calc_mcp_endpoint sample_runtime (Inr sample_unknown_tool_request) None None None None =
     Inr (returned (error_envelope (JInt 4) (- 32601) ''Method not found'' ''Unknown tool: launch''))"
    by (simp add: calc_tools_call[OF p] calc_get_user_scopes_def calc_check_scope_def
        split_space_def calc_execute_def params_get_def)
  have q: "parse_request sample_runtime (Inl sample_decode_error) = Inl sample_decode_error"
    by (simp add: parse_request_def)
  have w: "weather_mcp_endpoint sample_runtime (Inl sample_decode_error) None None None None =
     Inr (parse_error_response sample_decode_error)"
    by (simp add: weather_parse_error[OF q])
  note a = envelope_invariant [where rt = sample_runtime and rj = "Inr sample_unknown_tool_request"
      and hs = None and he = None and hr = None and hc = None
      and resp = "returned (error_envelope (JInt 4) (- 32601) ''Method not found'' ''Unknown tool: launch'')",
      THEN conjunct1, THEN mp, OF c]
  note b = envelope_invariant [where rt = sample_runtime and rj = "Inl sample_decode_error"
      and hs = None and he = None and hr = None and hc = None
      and resp' = "parse_error_response sample_decode_error",
      THEN conjunct2, THEN mp, OF w]
  from a have 1: "(envelope_member (returned (error_envelope (JInt 4) (- 32601) ''Method not found'' ''Unknown tool: launch'')) ''result'' \<noteq> None)
      = (envelope_member (returned (error_envelope (JInt 4) (- 32601) ''Method not found'' ''Unknown tool: launch'')) ''error'' = None)"
    by (rule conjunct1)
  from b q have 2: "envelope_member (parse_error_response sample_decode_error) ''id'' = Some JNull"
    by blast
  from 1 2 c w show ?thesis by (simp del: envelope_member.simps)
qed

text \<open>
  C6. The claim holds of the parse failure, and it is what the other branches of
  \<open>mcp_endpoint\<close> do; but the tool arguments are read and converted outside the \<open>try\<close>
  block. For a \<open>tools/call\<close> of \<open>add\<close> whose \<open>arguments\<close> member is the string \<open>1 2\<close>, the
  request parses, the scope is sufficient, \<open>arguments.get\<close> raises \<open>AttributeError\<close>, and the
  exception leaves the endpoint: no response with status 200 is returned, whatever the
  runtime.
\<close>

theorem bad_arguments_raise:
  "parse_request rt (Inr sample_bad_arguments_request) =
     Inr \<lparr>rpc_jsonrpc = ''2.0'', rpc_id = JInt 3, rpc_method = ''tools/call'',
          rpc_params = [(''name'', JStr ''add''), (''arguments'', JStr ''1 2'')]\<rparr>
   \<and> calc_check_scope (calc_get_user_scopes (header_or ''calculator:read'' None)) ''calculator:read''
   \<and> calc_mcp_endpoint rt (Inr sample_bad_arguments_request) None None None None =
     Inl (Exn ''AttributeError'' (sq @ ''str'' @ sq @ '' object has no attribute '' @ sq @ ''get'' @ sq))"
proof -
  have p: "parse_request rt (Inr sample_bad_arguments_request) =
     Inr \<lparr>rpc_jsonrpc = ''2.0'', rpc_id = JInt 3, rpc_method = ''tools/call'',
          rpc_params = [(''name'', JStr ''add''), (''arguments'', JStr ''1 2'')]\<rparr>"
    by (simp add: parse_request_def sample_bad_arguments_request_def rpc_body_def validate_fields_def)
  show ?thesis
    by (simp add: p calc_tools_call[OF p] calc_get_user_scopes_def calc_check_scope_def
        split_space_def calc_execute_def params_get_def float_arg_def)
qed

text \<open>
  C7. A \<open>tools/call\<close> of \<open>divide\<close> with the arguments \<open>a = 1\<close>, \<open>b = 0\<close> is answered with a
  result envelope whose text reports the division by zero, as the claim says. With the
  arguments \<open>a = null\<close>, \<open>b = 0\<close> the divisor is zero as well, but \<open>float(None)\<close> raises
  \<open>TypeError\<close> before \<open>calculate_divide\<close> is called, and the exception leaves the endpoint:
  no envelope is returned, whatever the runtime.
\<close>

theorem null_dividend_raises:
  "calc_mcp_endpoint rt (Inr sample_divide_request) None None None None =
     Inr (returned (JObj
       [(''jsonrpc'', JStr ''2.0''),
        (''id'', JInt 7),
        (''result'', JObj
          [(''content'', JArr [JObj [(''type'', JStr ''text''),
             (''text'', JStr
               (nl @ utf8 0x1F9EE @ '' Calcul: Division'' @ nl @ rule_line @ nl @
                utf8 0x1F4CA @ '' Op'' @ utf8 0xE9 @ ''ration: '' @ float_str rt (Finite 1) @
                '' '' @ utf8 0xF7 @ '' '' @ float_str rt (Finite 0) @ nl @
                utf8 0x274C @ '' Erreur: Division par z'' @ utf8 0xE9 @ ''ro impossible!'' @ nl @
                utf8 0x1F4C5 @ '' Calcul'' @ utf8 0xE9 @ '' le: '' @
                strftime_now rt ''%Y-%m-%d %H:%M:%S'' @ nl))]]),
           (''user'', JObj [(''sub'', JStr ''anonymous''), (''email'', JStr [])])])]))
   \<and> parse_request rt (Inr sample_null_dividend_request) =
     Inr \<lparr>rpc_jsonrpc = ''2.0'', rpc_id = JInt 8, rpc_method = ''tools/call'',
          rpc_params = [(''name'', JStr ''divide''),
                        (''arguments'', JObj [(''a'', JNull), (''b'', JInt 0)])]\<rparr>
   \<and> calc_check_scope (calc_get_user_scopes (header_or ''calculator:read'' None)) ''calculator:read''
   \<and> float_arg rt (JObj [(''a'', JNull), (''b'', JInt 0)]) ''b'' = Inr (Finite 0)
   \<and> calc_mcp_endpoint rt (Inr sample_null_dividend_request) None None None None =
     Inl (Exn ''TypeError''
           (''float() argument must be a string or a real number, not '' @ sq @ ''NoneType'' @ sq))"
proof -
  have p: "parse_request rt (Inr sample_divide_request) =
      Inr \<lparr>rpc_jsonrpc = ''2.0'', rpc_id = JInt 7, rpc_method = ''tools/call'',
           rpc_params = [(''name'', JStr ''divide''),
                         (''arguments'', JObj [(''a'', JInt 1), (''b'', JInt 0)])]\<rparr>"
    by (simp add: parse_request_def sample_divide_request_def rpc_body_def validate_fields_def)
  have q: "parse_request rt (Inr sample_null_dividend_request) =
     Inr \<lparr>rpc_jsonrpc = ''2.0'', rpc_id = JInt 8, rpc_method = ''tools/call'',
          rpc_params = [(''name'', JStr ''divide''),
                        (''arguments'', JObj [(''a'', JNull), (''b'', JInt 0)])]\<rparr>"
    by (simp add: parse_request_def sample_null_dividend_request_def rpc_body_def
        validate_fields_def)
  have s: "calc_check_scope (calc_get_user_scopes (header_or ''calculator:read'' None)) ''calculator:read''"
    by (simp add: calc_get_user_scopes_def calc_check_scope_def split_space_def)
  have 1: "calc_mcp_endpoint rt (Inr sample_divide_request) None None None None =
     Inr (returned (JObj
       [(''jsonrpc'', JStr ''2.0''),
        (''id'', JInt 7),
        (''result'', JObj
          [(''content'', JArr [JObj [(''type'', JStr ''text''),
             (''text'', JStr
               (nl @ utf8 0x1F9EE @ '' Calcul: Division'' @ nl @ rule_line @ nl @
                utf8 0x1F4CA @ '' Op'' @ utf8 0xE9 @ ''ration: '' @ float_str rt (Finite 1) @
                '' '' @ utf8 0xF7 @ '' '' @ float_str rt (Finite 0) @ nl @
                utf8 0x274C @ '' Erreur: Division par z'' @ utf8 0xE9 @ ''ro impossible!'' @ nl @
                utf8 0x1F4C5 @ '' Calcul'' @ utf8 0xE9 @ '' le: '' @
                strftime_now rt ''%Y-%m-%d %H:%M:%S'' @ nl))]]),
           (''user'', JObj [(''sub'', JStr ''anonymous''), (''email'', JStr [])])])]))"
    using s
    by (simp add: calc_tools_call[OF p] calc_execute_def params_get_def float_arg_def
        calculate_divide_def returned_def result_envelope_def tool_result_def)
  have 2: "float_arg rt (JObj [(''a'', JNull), (''b'', JInt 0)]) ''b'' = Inr (Finite 0)"
    by (simp add: float_arg_def)
  have 3: "calc_mcp_endpoint rt (Inr sample_null_dividend_request) None None None None =
     Inl (Exn ''TypeError''
           (''float() argument must be a string or a real number, not '' @ sq @ ''NoneType'' @ sq))"
    using s
    by (simp add: calc_tools_call[OF q] calc_execute_def params_get_def float_arg_def)
  from 1 q s 2 3 show ?thesis by (intro conjI)
qed











end
